theory Spec2Isabelle
  imports Complex_Main
begin

section \<open>Data model (models.py)\<close>

text \<open>
  The tables of models.py as records, a row per record value. Columns whose default is the
  wall clock (fecha_registro, fecha_creacion, fecha_actualizacion, fecha_agregado) are left
  out: no handler reads them. Primary keys and foreign keys are Python integers.

  A \<open>db.Numeric(10, 2)\<close> column holds an exact decimal with two fraction digits, read
  back as a Python \<open>Decimal\<close>: either a number, kept as its integer count of hundredths
  (\<open>Hundredths 45000\<close> is 450.00), or the decimal NaN, which the column also stores.
  Role and status are strings in the source and stay strings here; a \<open>char\<close> stands for
  a code point below 256.
\<close>

datatype numeric_10_2 = Hundredths int | Numeric_nan

type_synonym datetime = "nat \<times> nat \<times> nat \<times> nat \<times> nat"

record usuario =
  id_usuario :: int
  username :: string
  email :: string
  password_hash :: string
  rol :: string
  nombre_completo :: string
  telefono :: string
  activo :: bool

record servicio =
  id_servicios :: int
  nombre :: string
  precio_base :: numeric_10_2
  categoria :: string
  disponible :: bool

record evento =
  id_evento :: int
  usuario_id :: int
  titulo :: string
  descripcion :: string
  fecha_evento :: datetime
  lugar :: string
  num_invitados :: "int option"
  presupuesto_estimado :: "numeric_10_2 option"
  estado :: string

record evento_servicio_row =
  id_evento_servicio :: int
  evento_id :: int
  servicio_id :: int
  precio_acordado :: numeric_10_2

text \<open>
  The database: one list per table, in insertion order, and the two serial sequences that
  hand out the primary keys of the tables the handlers insert into.
\<close>

record db =
  usuarios :: "usuario list"
  servicios :: "servicio list"
  eventos :: "evento list"
  evento_servicio :: "evento_servicio_row list"
  eventos_seq :: int
  evento_servicio_seq :: int

section \<open>Pricing (models.py, Evento.calcular_total)\<close>

text \<open>
  \<open>self.servicios_contratados\<close> is the relationship on \<open>evento_servicio.evento_id\<close>:
  the rows of the association table that point at the event.
\<close>

definition servicios_contratados :: "db \<Rightarrow> evento \<Rightarrow> evento_servicio_row list" where
  "servicios_contratados st e = filter (\<lambda>es. evento_id es = id_evento e) (evento_servicio st)"

text \<open>
  \<open>Decimal.__add__\<close> on values of the column: two numbers add exactly, hundredth by
  hundredth, and a NaN operand gives NaN. (The context keeps 28 digits, so the addition of
  numbers of at most ten digits is exact for any table that fits a database.)
\<close>

fun decimal_add :: "numeric_10_2 \<Rightarrow> numeric_10_2 \<Rightarrow> numeric_10_2" where
  "decimal_add (Hundredths a) (Hundredths b) = Hundredths (a + b)"
| "decimal_add Numeric_nan y = Numeric_nan"
| "decimal_add x Numeric_nan = Numeric_nan"

text \<open>Python's \<open>sum\<close>: start from the integer 0 and add the items from left to right.\<close>

definition py_sum :: "numeric_10_2 list \<Rightarrow> numeric_10_2" where
  "py_sum xs = foldl (\<lambda>total x. decimal_add total x) (Hundredths 0) xs"

definition calcular_total :: "db \<Rightarrow> evento \<Rightarrow> numeric_10_2" where
  "calcular_total st e = py_sum (map precio_acordado (servicios_contratados st e))"

section \<open>Access policy (models.py, Usuario.es_admin; app.py, the ownership guards)\<close>

definition es_admin :: "usuario \<Rightarrow> bool" where
  "es_admin u = (rol u = ''admin'')"

text \<open>
  app.py has no named permission function: each event handler starts with the guard
  \<open>if evento.usuario_id != current_user.id and not current_user.es_admin()\<close> and turns
  the request away when it holds. \<open>can_view_event\<close> is the negation of that guard in
  cliente_ver_evento (line 174); \<open>can_mutate_event\<close> the negation of the guard in
  cliente_editar_evento, cliente_cancelar_evento, cliente_agregar_servicio and
  cliente_eliminar_servicio (lines 188, 227, 244, 281).
\<close>

definition can_view_event :: "usuario \<Rightarrow> evento \<Rightarrow> bool" where
  "can_view_event u e = (\<not> (usuario_id e \<noteq> id_usuario u \<and> \<not> es_admin u))"

definition can_mutate_event :: "usuario \<Rightarrow> evento \<Rightarrow> bool" where
  "can_mutate_event u e = (\<not> (usuario_id e \<noteq> id_usuario u \<and> \<not> es_admin u))"

text \<open>\<open>Evento.query.get_or_404\<close>: the row with that primary key, or a 404.\<close>

definition get_evento :: "db \<Rightarrow> int \<Rightarrow> evento option" where
  "get_evento st eid = find (\<lambda>e. id_evento e = eid) (eventos st)"

definition get_servicio :: "db \<Rightarrow> int \<Rightarrow> servicio option" where
  "get_servicio st sid = find (\<lambda>s. id_servicios s = sid) (servicios st)"

definition get_usuario :: "db \<Rightarrow> int \<Rightarrow> usuario option" where
  "get_usuario st uid = find (\<lambda>u. id_usuario u = uid) (usuarios st)"

text \<open>An UPDATE of one row of \<open>eventos\<close>, addressed by its primary key.\<close>

definition update_evento :: "db \<Rightarrow> int \<Rightarrow> (evento \<Rightarrow> evento) \<Rightarrow> db" where
  "update_evento st eid f =
     st\<lparr>eventos := map (\<lambda>x. if id_evento x = eid then f x else x) (eventos st)\<rparr>"

text \<open>
  A number as a request delivers it, after \<open>float(...)\<close> or \<open>Decimal(...)\<close>: a finite
  value (taken as the decimal the driver transmits for it), an infinity, or NaN.
\<close>

datatype py_number = Finite rat | Pos_inf | Neg_inf | Not_a_number

text \<open>
  Storing a number in a \<open>Numeric(10, 2)\<close> column: the database rounds a finite value to
  two fraction digits, half away from zero, and refuses it when it then needs more than
  ten digits; it refuses an infinity; it stores NaN as NaN. \<open>None\<close> is the refusal.
\<close>

definition round_half_away :: "rat \<Rightarrow> int" where
  "round_half_away r = (if 0 \<le> r then \<lfloor>r + 1 / 2\<rfloor> else - \<lfloor>- r + 1 / 2\<rfloor>)"

definition to_numeric_10_2 :: "py_number \<Rightarrow> numeric_10_2 option" where
  "to_numeric_10_2 x =
     (case x of
        Finite r \<Rightarrow>
          (let c = round_half_away (r * 100)
           in if \<bar>c\<bar> < 10 ^ 10 then Some (Hundredths c) else None)
      | Pos_inf \<Rightarrow> None
      | Neg_inf \<Rightarrow> None
      | Not_a_number \<Rightarrow> Some Numeric_nan)"

section \<open>Requests, forms and responses (forms.py)\<close>

text \<open>
  A request to a form route is a GET or a POST; a POST carries the verdict on its CSRF
  token and the submitted fields. \<open>validate_on_submit\<close> gives the form back when the
  request is a POST, the token is good and the validators of the form pass.
\<close>

datatype 'f request = Get | Post bool 'f

fun validate_on_submit :: "('f \<Rightarrow> bool) \<Rightarrow> 'f request \<Rightarrow> 'f option" where
  "validate_on_submit validators Get = None"
| "validate_on_submit validators (Post csrf_ok f) =
     (if csrf_ok \<and> validators f then Some f else None)"

text \<open>
  A numeric field as submitted: left blank, a text that parses, or a text that does not.
  Its \<open>.data\<close> is the parsed number, and \<open>None\<close> otherwise.
\<close>

datatype 'a number_field = Blank | Parsed 'a | Unparseable

fun field_data :: "'a number_field \<Rightarrow> 'a option" where
  "field_data Blank = None"
| "field_data (Parsed x) = Some x"
| "field_data Unparseable = None"

text \<open>
  The characters \<open>str.strip\<close> removes: the whitespace code points below 256, which are
  the ASCII ones, U+0085 (next line) and U+00A0 (no-break space).
\<close>

definition is_space :: "char \<Rightarrow> bool" where
  "is_space c = (c \<in> set [CHR '' '', CHR 0x09, CHR 0x0A, CHR 0x0B, CHR 0x0C, CHR 0x0D,
                            CHR 0x1C, CHR 0x1D, CHR 0x1E, CHR 0x1F, CHR 0x85, CHR 0xA0])"

definition is_blank :: "string \<Rightarrow> bool" where
  "is_blank s = list_all is_space s"

text \<open>The validators of wtforms that forms.py uses.\<close>

definition DataRequired :: "string \<Rightarrow> bool" where
  "DataRequired s = (\<not> is_blank s)"

definition Length_between :: "nat \<Rightarrow> nat \<Rightarrow> string \<Rightarrow> bool" where
  "Length_between lo hi s = (lo \<le> length s \<and> length s \<le> hi)"

definition Length_max :: "nat \<Rightarrow> string \<Rightarrow> bool" where
  "Length_max hi s = (length s \<le> hi)"

text \<open>\<open>Optional()\<close> first: a blank field passes and the rest of the chain is skipped.\<close>

definition Optional_then :: "(string \<Rightarrow> bool) \<Rightarrow> string \<Rightarrow> bool" where
  "Optional_then rest s = (is_blank s \<or> rest s)"

fun Optional_number :: "('a \<Rightarrow> bool) \<Rightarrow> 'a number_field \<Rightarrow> bool" where
  "Optional_number number_range Blank = True"
| "Optional_number number_range (Parsed x) = number_range x"
| "Optional_number number_range Unparseable = False"

text \<open>\<open>NumberRange(min=0)\<close> on a Decimal: NaN fails, and so does anything below zero.\<close>

fun NumberRange_min_0 :: "py_number \<Rightarrow> bool" where
  "NumberRange_min_0 (Finite d) = (0 \<le> d)"
| "NumberRange_min_0 Pos_inf = True"
| "NumberRange_min_0 Neg_inf = False"
| "NumberRange_min_0 Not_a_number = False"

record evento_form =
  f_titulo :: string
  f_descripcion :: string
  f_fecha_evento :: string
  f_lugar :: string
  f_num_invitados :: "int number_field"
  f_presupuesto_estimado :: "py_number number_field"
  f_estado :: string

definition estado_choices :: "(string \<times> string) list" where
  "estado_choices =
     [(''pendiente'', ''Pendiente''), (''confirmado'', ''Confirmado''),
      (''cancelado'', ''Cancelado''), (''completado'', ''Completado'')]"

text \<open>A SelectField accepts only the value of one of its choices.\<close>

definition valid_choice :: "(string \<times> string) list \<Rightarrow> string \<Rightarrow> bool" where
  "valid_choice choices s = (s \<in> set (map fst choices))"

definition EventoForm_validate :: "evento_form \<Rightarrow> bool" where
  "EventoForm_validate f =
     ((DataRequired (f_titulo f) \<and> Length_between 5 200 (f_titulo f))
      \<and> Optional_then (Length_max 1000) (f_descripcion f)
      \<and> DataRequired (f_fecha_evento f)
      \<and> (DataRequired (f_lugar f) \<and> Length_between 5 255 (f_lugar f))
      \<and> Optional_number (\<lambda>n. 1 \<le> n \<and> n \<le> 10000) (f_num_invitados f)
      \<and> Optional_number NumberRange_min_0 (f_presupuesto_estimado f)
      \<and> (valid_choice estado_choices (f_estado f) \<and> DataRequired (f_estado f)))"

record login_form =
  l_username :: string
  l_password :: string
  l_remember :: bool

definition LoginForm_validate :: "login_form \<Rightarrow> bool" where
  "LoginForm_validate f =
     ((DataRequired (l_username f) \<and> Length_between 3 80 (l_username f))
      \<and> DataRequired (l_password f))"

text \<open>
  What a handler answers. Every flash-and-redirect of app.py is one constructor, named
  after the outcome; the messages themselves are presentation.
\<close>

datatype response =
    Login_required
  | Admin_required
  | Not_found
  | Forbidden
  | Server_error
  | Render_form
  | Fecha_invalida
  | Evento_detalle evento "servicio list"
  | Evento_creado int
  | Evento_actualizado
  | Evento_cancelado
  | Datos_incompletos
  | Ya_agregado
  | Servicio_agregado
  | Servicio_quitado
  | Servicio_en_uso nat
  | Servicio_eliminado
  | Propia_cuenta
  | Usuario_cambiado bool
  | Redirect_dashboard
  | Cuenta_desactivada
  | Credenciales_incorrectas
  | Sesion_iniciada usuario

section \<open>Handlers (app.py)\<close>

text \<open>
  Each handler takes the database, the \<open>current_user\<close> of the request (\<open>None\<close> when
  nobody is logged in) and the inputs of the route, and returns its response with the
  database after the commit. \<open>strptime\<close> stands for
  \<open>datetime.strptime(_, '%Y-%m-%dT%H:%M')\<close>, with \<open>None\<close> for its ValueError, and
  \<open>check_password_hash\<close> for the bcrypt check: both are library code and are parameters.
\<close>

definition cliente_ver_evento :: "db \<Rightarrow> usuario option \<Rightarrow> int \<Rightarrow> response" where
  "cliente_ver_evento st current_user eid =
     (case current_user of
        None \<Rightarrow> Login_required
      | Some u \<Rightarrow>
          (case get_evento st eid of
             None \<Rightarrow> Not_found
           | Some e \<Rightarrow>
               if \<not> can_view_event u e then Forbidden
               else Evento_detalle e (filter disponible (servicios st))))"

definition login ::
  "(string \<Rightarrow> string \<Rightarrow> bool) \<Rightarrow> db \<Rightarrow> usuario option \<Rightarrow> login_form request \<Rightarrow> response" where
  "login check_password_hash st current_user req =
     (case current_user of
        Some cu \<Rightarrow> Redirect_dashboard
      | None \<Rightarrow>
          (case validate_on_submit LoginForm_validate req of
             None \<Rightarrow> Render_form
           | Some f \<Rightarrow>
               (case find (\<lambda>u. username u = l_username f) (usuarios st) of
                  None \<Rightarrow> Credenciales_incorrectas
                | Some usuario \<Rightarrow>
                    if check_password_hash (password_hash usuario) (l_password f) then
                      (if \<not> activo usuario then Cuenta_desactivada
                       else Sesion_iniciada usuario)
                    else Credenciales_incorrectas)))"

text \<open>The value a validated form leaves for the \<open>presupuesto_estimado\<close> column.\<close>

definition presupuesto_column :: "py_number number_field \<Rightarrow> numeric_10_2 option option" where
  "presupuesto_column fld =
     (case field_data fld of
        None \<Rightarrow> Some None
      | Some d \<Rightarrow> map_option Some (to_numeric_10_2 d))"

definition cliente_nuevo_evento ::
  "(string \<Rightarrow> datetime option) \<Rightarrow> db \<Rightarrow> usuario option \<Rightarrow> evento_form request
     \<Rightarrow> response \<times> db" where
  "cliente_nuevo_evento strptime st current_user req =
     (case current_user of
        None \<Rightarrow> (Login_required, st)
      | Some u \<Rightarrow>
          (case validate_on_submit EventoForm_validate req of
             None \<Rightarrow> (Render_form, st)
           | Some f \<Rightarrow>
               (case strptime (f_fecha_evento f) of
                  None \<Rightarrow> (Fecha_invalida, st)
                | Some fecha \<Rightarrow>
                    (case presupuesto_column (f_presupuesto_estimado f) of
                       None \<Rightarrow> (Server_error, st)
                     | Some presupuesto \<Rightarrow>
                         let nuevo_evento =
                               \<lparr>id_evento = eventos_seq st,
                                usuario_id = id_usuario u,
                                titulo = f_titulo f,
                                descripcion = f_descripcion f,
                                fecha_evento = fecha,
                                lugar = f_lugar f,
                                num_invitados = field_data (f_num_invitados f),
                                presupuesto_estimado = presupuesto,
                                estado = ''pendiente''\<rparr>
                         in (Evento_creado (id_evento nuevo_evento),
                             st\<lparr>eventos := eventos st @ [nuevo_evento],
                                eventos_seq := eventos_seq st + 1\<rparr>)))))"

definition cliente_editar_evento ::
  "(string \<Rightarrow> datetime option) \<Rightarrow> db \<Rightarrow> usuario option \<Rightarrow> evento_form request \<Rightarrow> int
     \<Rightarrow> response \<times> db" where
  "cliente_editar_evento strptime st current_user req eid =
     (case current_user of
        None \<Rightarrow> (Login_required, st)
      | Some u \<Rightarrow>
          (case get_evento st eid of
             None \<Rightarrow> (Not_found, st)
           | Some e \<Rightarrow>
               if \<not> can_mutate_event u e then (Forbidden, st)
               else
                 (case validate_on_submit EventoForm_validate req of
                    None \<Rightarrow> (Render_form, st)
                  | Some f \<Rightarrow>
                      (case strptime (f_fecha_evento f) of
                         None \<Rightarrow> (Fecha_invalida, st)
                       | Some fecha \<Rightarrow>
                           (case presupuesto_column (f_presupuesto_estimado f) of
                              None \<Rightarrow> (Server_error, st)
                            | Some presupuesto \<Rightarrow>
                                (Evento_actualizado,
                                 update_evento st (id_evento e)
                                   (\<lambda>x. let x1 = x\<lparr>titulo := f_titulo f,
                                                     descripcion := f_descripcion f,
                                                     fecha_evento := fecha,
                                                     lugar := f_lugar f,
                                                     num_invitados := field_data (f_num_invitados f),
                                                     presupuesto_estimado := presupuesto\<rparr>
                                         in if es_admin u then x1\<lparr>estado := f_estado f\<rparr>
                                            else x1)))))))"

definition cliente_cancelar_evento :: "db \<Rightarrow> usuario option \<Rightarrow> int \<Rightarrow> response \<times> db" where
  "cliente_cancelar_evento st current_user eid =
     (case current_user of
        None \<Rightarrow> (Login_required, st)
      | Some u \<Rightarrow>
          (case get_evento st eid of
             None \<Rightarrow> (Not_found, st)
           | Some e \<Rightarrow>
               if \<not> can_mutate_event u e then (Forbidden, st)
               else (Evento_cancelado,
                     update_evento st (id_evento e) (\<lambda>x. x\<lparr>estado := ''cancelado''\<rparr>))))"

text \<open>
  \<open>request.form.get(name, type=t)\<close> gives \<open>None\<close> when the field is missing or does not
  convert. \<open>py_not\<close> is Python's \<open>not\<close> on such a value: true for \<open>None\<close> and for zero.
  The price has been through \<open>float\<close>, for which only zero is false: an infinity and NaN
  are true.
\<close>

definition py_not :: "'a::zero option \<Rightarrow> bool" where
  "py_not x = (case x of None \<Rightarrow> True | Some v \<Rightarrow> v = 0)"

fun float_is_zero :: "py_number \<Rightarrow> bool" where
  "float_is_zero (Finite r) = (r = 0)"
| "float_is_zero Pos_inf = False"
| "float_is_zero Neg_inf = False"
| "float_is_zero Not_a_number = False"

definition py_not_float :: "py_number option \<Rightarrow> bool" where
  "py_not_float x = (case x of None \<Rightarrow> True | Some v \<Rightarrow> float_is_zero v)"

definition existe :: "db \<Rightarrow> int \<Rightarrow> int \<Rightarrow> evento_servicio_row option" where
  "existe st eid sid =
     find (\<lambda>r. evento_id r = eid \<and> servicio_id r = sid) (evento_servicio st)"

definition cliente_agregar_servicio ::
  "db \<Rightarrow> usuario option \<Rightarrow> int \<Rightarrow> int option \<Rightarrow> py_number option \<Rightarrow> response \<times> db" where
  "cliente_agregar_servicio st current_user eid servicio_id_form precio_acordado_form =
     (case current_user of
        None \<Rightarrow> (Login_required, st)
      | Some u \<Rightarrow>
          (case get_evento st eid of
             None \<Rightarrow> (Not_found, st)
           | Some e \<Rightarrow>
               if \<not> can_mutate_event u e then (Forbidden, st)
               else if py_not servicio_id_form \<or> py_not_float precio_acordado_form
               then (Datos_incompletos, st)
               else
                 (case (servicio_id_form, precio_acordado_form) of
                    (Some sid, Some precio) \<Rightarrow>
                      (case get_servicio st sid of
                         None \<Rightarrow> (Not_found, st)
                       | Some s \<Rightarrow>
                           (case existe st eid sid of
                              Some r \<Rightarrow> (Ya_agregado, st)
                            | None \<Rightarrow>
                                (case to_numeric_10_2 precio of
                                   None \<Rightarrow> (Server_error, st)
                                 | Some c \<Rightarrow>
                                     (Servicio_agregado,
                                      st\<lparr>evento_servicio := evento_servicio st @
                                            [\<lparr>id_evento_servicio = evento_servicio_seq st,
                                              evento_id = eid,
                                              servicio_id = sid,
                                              precio_acordado = c\<rparr>],
                                         evento_servicio_seq := evento_servicio_seq st + 1\<rparr>))))
                  | _ \<Rightarrow> (Datos_incompletos, st))))"

definition cliente_eliminar_servicio ::
  "db \<Rightarrow> usuario option \<Rightarrow> int \<Rightarrow> int \<Rightarrow> response \<times> db" where
  "cliente_eliminar_servicio st current_user eid sid =
     (case current_user of
        None \<Rightarrow> (Login_required, st)
      | Some u \<Rightarrow>
          (case get_evento st eid of
             None \<Rightarrow> (Not_found, st)
           | Some e \<Rightarrow>
               if \<not> can_mutate_event u e then (Forbidden, st)
               else
                 (case existe st eid sid of
                    None \<Rightarrow> (Not_found, st)
                  | Some r \<Rightarrow>
                      (Servicio_quitado,
                       st\<lparr>evento_servicio :=
                            filter (\<lambda>x. id_evento_servicio x \<noteq> id_evento_servicio r)
                              (evento_servicio st)\<rparr>))))"

text \<open>The decorator \<open>admin_required\<close>: the answer that stops the request, if any.\<close>

definition admin_required :: "usuario option \<Rightarrow> response option" where
  "admin_required current_user =
     (case current_user of
        None \<Rightarrow> Some Login_required
      | Some u \<Rightarrow> if \<not> es_admin u then Some Admin_required else None)"

text \<open>\<open>EventoServicio.query.filter_by(servicio_id=servicio_id).count()\<close>\<close>

definition en_uso :: "db \<Rightarrow> int \<Rightarrow> nat" where
  "en_uso st sid = length (filter (\<lambda>r. servicio_id r = sid) (evento_servicio st))"

definition admin_eliminar_servicio :: "db \<Rightarrow> usuario option \<Rightarrow> int \<Rightarrow> response \<times> db" where
  "admin_eliminar_servicio st current_user sid =
     (case admin_required current_user of
        Some stop \<Rightarrow> (stop, st)
      | None \<Rightarrow>
          (case get_servicio st sid of
             None \<Rightarrow> (Not_found, st)
           | Some s \<Rightarrow>
               let n = en_uso st sid
               in if n > 0 then (Servicio_en_uso n, st)
                  else (Servicio_eliminado,
                        st\<lparr>servicios :=
                             filter (\<lambda>x. id_servicios x \<noteq> id_servicios s) (servicios st)\<rparr>)))"

text \<open>The first two branches are the decorator \<open>admin_required\<close>, written out because
  the body needs the current user.\<close>

definition admin_toggle_usuario_activo ::
  "db \<Rightarrow> usuario option \<Rightarrow> int \<Rightarrow> response \<times> db" where
  "admin_toggle_usuario_activo st current_user uid =
     (case current_user of
        None \<Rightarrow> (Login_required, st)
      | Some cu \<Rightarrow>
          if \<not> es_admin cu then (Admin_required, st)
          else
            (case get_usuario st uid of
               None \<Rightarrow> (Not_found, st)
             | Some usuario \<Rightarrow>
                 if id_usuario usuario = id_usuario cu then (Propia_cuenta, st)
                 else (Usuario_cambiado (\<not> activo usuario),
                       st\<lparr>usuarios :=
                            map (\<lambda>x. if id_usuario x = id_usuario usuario
                                      then x\<lparr>activo := \<not> activo x\<rparr> else x)
                              (usuarios st)\<rparr>)))"

section \<open>Reachable databases\<close>

definition empty_db :: db where
  "empty_db = \<lparr>usuarios = [], servicios = [], eventos = [], evento_servicio = [],
               eventos_seq = 1, evento_servicio_seq = 1\<rparr>"

text \<open>
  Primary keys are unique and come from the sequences, so every key in a table is below
  the next value of its sequence.
\<close>

definition wf_db :: "db \<Rightarrow> bool" where
  "wf_db st =
     (distinct (map id_evento (eventos st))
      \<and> list_all (\<lambda>e. id_evento e < eventos_seq st) (eventos st)
      \<and> distinct (map id_evento_servicio (evento_servicio st))
      \<and> list_all (\<lambda>r. id_evento_servicio r < evento_servicio_seq st) (evento_servicio st))"

text \<open>
  The account that created an event is the \<open>current_user\<close> of the request that inserted
  it. \<open>registrar_creador\<close> keeps that book beside the database: it is not part of the
  program, only of the statement that ownership never moves.
\<close>

fun registrar_creador :: "(int \<rightharpoonup> int) \<Rightarrow> usuario option \<Rightarrow> response \<Rightarrow> (int \<rightharpoonup> int)" where
  "registrar_creador creador (Some u) (Evento_creado eid) = creador(eid \<mapsto> id_usuario u)"
| "registrar_creador creador current_user resp = creador"

text \<open>
  The databases the application can reach from the empty one, each with the book of
  creators. One rule per handler that writes to the tables of the model; the last rule
  stands for the handlers that write to other tables only (registro, the service and
  vendor forms of the administrator), which leave events and associations alone.
\<close>

inductive reach :: "(string \<Rightarrow> datetime option) \<Rightarrow> db \<Rightarrow> (int \<rightharpoonup> int) \<Rightarrow> bool"
  for strptime :: "string \<Rightarrow> datetime option" where
  reach_init: "reach strptime empty_db Map.empty"
| reach_nuevo_evento:
    "reach strptime st creador \<Longrightarrow>
     cliente_nuevo_evento strptime st current_user req = (resp, st') \<Longrightarrow>
     reach strptime st' (registrar_creador creador current_user resp)"
| reach_editar_evento:
    "reach strptime st creador \<Longrightarrow>
     cliente_editar_evento strptime st current_user req eid = (resp, st') \<Longrightarrow>
     reach strptime st' creador"
| reach_cancelar_evento:
    "reach strptime st creador \<Longrightarrow>
     cliente_cancelar_evento st current_user eid = (resp, st') \<Longrightarrow>
     reach strptime st' creador"
| reach_agregar_servicio:
    "reach strptime st creador \<Longrightarrow>
     cliente_agregar_servicio st current_user eid sid_form precio_form = (resp, st') \<Longrightarrow>
     reach strptime st' creador"
| reach_eliminar_servicio:
    "reach strptime st creador \<Longrightarrow>
     cliente_eliminar_servicio st current_user eid sid = (resp, st') \<Longrightarrow>
     reach strptime st' creador"
| reach_admin_eliminar_servicio:
    "reach strptime st creador \<Longrightarrow>
     admin_eliminar_servicio st current_user sid = (resp, st') \<Longrightarrow>
     reach strptime st' creador"
| reach_admin_toggle_usuario_activo:
    "reach strptime st creador \<Longrightarrow>
     admin_toggle_usuario_activo st current_user uid = (resp, st') \<Longrightarrow>
     reach strptime st' creador"
| reach_other_tables:
    "reach strptime st creador \<Longrightarrow>
     st' = st\<lparr>usuarios := us, servicios := ss\<rparr> \<Longrightarrow>
     reach strptime st' creador"

text \<open>Who owns what: the pairs (event id, owner id) of the events table, in table order.\<close>

definition owners :: "db \<Rightarrow> (int \<times> int) list" where
  "owners st = map (\<lambda>e. (id_evento e, usuario_id e)) (eventos st)"

text \<open>The book of creators agrees with the table: every event's key is below the
  sequence and the book has the event's owner under that key.\<close>

definition owner_book :: "db \<Rightarrow> (int \<rightharpoonup> int) \<Rightarrow> bool" where
  "owner_book st creador =
     list_all (\<lambda>(k, u). k < eventos_seq st \<and> creador k = Some u) (owners st)"

section \<open>A worked scenario\<close>

text \<open>
  The scenario of the specification: the client alice, a second client, an administrator,
  the service Catering at base price 500.00, and alice's event Beach Wedding.
\<close>

definition alice :: usuario where
  "alice = \<lparr>id_usuario = 1, username = ''alice'', email = ''alice@example.com'',
            password_hash = ''hash:secret1'', rol = ''cliente'',
            nombre_completo = ''Alice'', telefono = [], activo = True\<rparr>"

definition bruno :: usuario where
  "bruno = \<lparr>id_usuario = 2, username = ''bruno'', email = ''bruno@example.com'',
            password_hash = ''hash:secret2'', rol = ''cliente'',
            nombre_completo = ''Bruno'', telefono = [], activo = False\<rparr>"

definition admin_root :: usuario where
  "admin_root = \<lparr>id_usuario = 3, username = ''admin_root'', email = ''admin_root@example.com'',
           password_hash = ''hash:secret3'', rol = ''admin'',
           nombre_completo = ''Root'', telefono = [], activo = True\<rparr>"

definition catering :: servicio where
  "catering = \<lparr>id_servicios = 1, nombre = ''Catering'', precio_base = Hundredths 50000,
               categoria = ''catering'', disponible = True\<rparr>"

definition boda :: evento where
  "boda = \<lparr>id_evento = 1, usuario_id = 1, titulo = ''Beach Wedding'', descripcion = [],
           fecha_evento = (2030, 6, 15, 17, 0), lugar = ''Playa Norte'',
           num_invitados = Some 120, presupuesto_estimado = None,
           estado = ''pendiente''\<rparr>"

definition boda_form :: evento_form where
  "boda_form = \<lparr>f_titulo = ''Beach Wedding'', f_descripcion = [],
                f_fecha_evento = ''2030-06-15T17:00'', f_lugar = ''Playa Norte'',
                f_num_invitados = Parsed 120, f_presupuesto_estimado = Blank,
                f_estado = ''pendiente''\<rparr>"

definition fiesta_form :: evento_form where
  "fiesta_form = \<lparr>f_titulo = ''Garden Party'', f_descripcion = ''Flowers'',
                  f_fecha_evento = ''2030-06-15T17:00'', f_lugar = ''Jardin Sur'',
                  f_num_invitados = Parsed 80, f_presupuesto_estimado = Parsed (Finite 2500),
                  f_estado = ''confirmado''\<rparr>"

definition strptime_example :: "string \<Rightarrow> datetime option" where
  "strptime_example s = (if s = ''2030-06-15T17:00'' then Some (2030, 6, 15, 17, 0) else None)"

definition check_example :: "string \<Rightarrow> string \<Rightarrow> bool" where
  "check_example stored password = (stored = ''hash:'' @ password)"

definition db_cuentas :: db where
  "db_cuentas = \<lparr>usuarios = [alice, bruno, admin_root], servicios = [catering], eventos = [],
                 evento_servicio = [], eventos_seq = 1, evento_servicio_seq = 1\<rparr>"

definition db_boda :: db where
  "db_boda = \<lparr>usuarios = [alice, bruno, admin_root], servicios = [catering], eventos = [boda],
              evento_servicio = [], eventos_seq = 2, evento_servicio_seq = 1\<rparr>"

definition db_boda_catering :: db where
  "db_boda_catering =
     \<lparr>usuarios = [alice, bruno, admin_root], servicios = [catering], eventos = [boda],
      evento_servicio = [\<lparr>id_evento_servicio = 1, evento_id = 1, servicio_id = 1,
                           precio_acordado = Hundredths 45000\<rparr>],
      eventos_seq = 2, evento_servicio_seq = 2\<rparr>"

definition fiesta :: evento where
  "fiesta = \<lparr>id_evento = 2, usuario_id = 2, titulo = ''Garden Party'', descripcion = [],
             fecha_evento = (2030, 6, 15, 17, 0), lugar = ''Jardin Sur'',
             num_invitados = None, presupuesto_estimado = None, estado = ''pendiente''\<rparr>"

text \<open>Two events with one association row each, and the same with a NaN price on the
  second row of the first event.\<close>

definition db_dos_eventos :: db where
  "db_dos_eventos =
     \<lparr>usuarios = [alice, bruno, admin_root], servicios = [catering],
      eventos = [boda, fiesta],
      evento_servicio = [\<lparr>id_evento_servicio = 1, evento_id = 1, servicio_id = 1,
                           precio_acordado = Hundredths 45000\<rparr>,
                         \<lparr>id_evento_servicio = 2, evento_id = 2, servicio_id = 1,
                           precio_acordado = Hundredths 10000\<rparr>],
      eventos_seq = 3, evento_servicio_seq = 3\<rparr>"

definition db_precio_nan :: db where
  "db_precio_nan =
     \<lparr>usuarios = [alice, bruno, admin_root], servicios = [catering],
      eventos = [boda, fiesta],
      evento_servicio = [\<lparr>id_evento_servicio = 1, evento_id = 1, servicio_id = 1,
                           precio_acordado = Hundredths 45000\<rparr>,
                         \<lparr>id_evento_servicio = 2, evento_id = 2, servicio_id = 1,
                           precio_acordado = Numeric_nan\<rparr>],
      eventos_seq = 3, evento_servicio_seq = 3\<rparr>"

definition boda_completada :: evento where
  "boda_completada = boda\<lparr>estado := ''completado''\<rparr>"

definition bruno_login :: "string \<Rightarrow> login_form" where
  "bruno_login password = \<lparr>l_username = ''bruno'', l_password = password, l_remember = False\<rparr>"

section \<open>Pricing: the total is the exact sum\<close>

lemma foldl_decimal_add_finite:
  "foldl (\<lambda>total x. decimal_add total x) (Hundredths a) (map Hundredths cs)
   = Hundredths (a + sum_list cs)"
  by (induction cs arbitrary: a) (simp_all add: add.assoc)

lemma foldl_decimal_add_from_nan:
  "foldl (\<lambda>total x. decimal_add total x) Numeric_nan xs = Numeric_nan"
  by (induction xs) simp_all

lemma decimal_add_nan_right: "decimal_add x Numeric_nan = Numeric_nan"
  by (cases x) simp_all

lemma foldl_decimal_add_nan:
  "Numeric_nan \<in> set xs \<Longrightarrow> foldl (\<lambda>total x. decimal_add total x) acc xs = Numeric_nan"
proof (induction xs arbitrary: acc)
  case Nil
  then show ?case by simp
next
  case (Cons x xs)
  show ?case
  proof (cases "x = Numeric_nan")
    case True
    then show ?thesis by (simp add: decimal_add_nan_right foldl_decimal_add_from_nan)
  next
    case False
    with Cons.prems have "Numeric_nan \<in> set xs" by simp
    then show ?thesis by (simp add: Cons.IH)
  qed
qed

text \<open>
  C1. For every event, the total is taken over the rows of the association table whose
  \<open>evento_id\<close> is the event's id, and over no other row: when their prices are the
  numbers \<open>cs\<close>, in hundredths, the total is the integer sum of \<open>cs\<close>, so no rounding
  enters; when one of their prices is NaN, the decimal sum is NaN; and when the table has
  no row for the event, the total is zero.
\<close>

theorem calcular_total_exact_sum:
  "(map precio_acordado (filter (\<lambda>r. evento_id r = id_evento e) (evento_servicio st))
      = map Hundredths cs
    \<longrightarrow> calcular_total st e = Hundredths (sum_list cs))
   \<and> ((\<exists>r \<in> set (evento_servicio st). evento_id r = id_evento e
          \<and> precio_acordado r = Numeric_nan)
      \<longrightarrow> calcular_total st e = Numeric_nan)
   \<and> ((\<forall>r \<in> set (evento_servicio st). evento_id r \<noteq> id_evento e)
      \<longrightarrow> calcular_total st e = Hundredths 0)"
proof (intro conjI impI)
  assume "map precio_acordado (filter (\<lambda>r. evento_id r = id_evento e) (evento_servicio st))
      = map Hundredths cs"
  then show "calcular_total st e = Hundredths (sum_list cs)"
    by (simp add: calcular_total_def servicios_contratados_def py_sum_def
        foldl_decimal_add_finite)
next
  assume "\<exists>r \<in> set (evento_servicio st). evento_id r = id_evento e
          \<and> precio_acordado r = Numeric_nan"
  then obtain r where "r \<in> set (evento_servicio st)" "evento_id r = id_evento e"
    "precio_acordado r = Numeric_nan" by blast
  then have "precio_acordado r
      \<in> set (map precio_acordado (filter (\<lambda>r. evento_id r = id_evento e) (evento_servicio st)))"
    by (simp del: set_map set_filter add: image_iff) force
  then have "Numeric_nan
      \<in> set (map precio_acordado (filter (\<lambda>r. evento_id r = id_evento e) (evento_servicio st)))"
    using \<open>precio_acordado r = Numeric_nan\<close> by simp
  from foldl_decimal_add_nan [OF this]
  show "calcular_total st e = Numeric_nan"
    by (simp add: calcular_total_def servicios_contratados_def py_sum_def)
next
  assume "\<forall>r \<in> set (evento_servicio st). evento_id r \<noteq> id_evento e"
  then have "filter (\<lambda>r. evento_id r = id_evento e) (evento_servicio st) = []"
    by (simp add: filter_empty_conv)
  then show "calcular_total st e = Hundredths 0"
    by (simp add: calcular_total_def servicios_contratados_def py_sum_def)
qed

theorem calcular_total_exact_sum_witness:
  "map precio_acordado (filter (\<lambda>r. evento_id r = id_evento boda) (evento_servicio db_dos_eventos))
     = map Hundredths [45000]
   \<and> calcular_total db_dos_eventos boda = Hundredths 45000
   \<and> map precio_acordado (filter (\<lambda>r. evento_id r = id_evento fiesta) (evento_servicio db_dos_eventos))
     = map Hundredths [10000]
   \<and> calcular_total db_dos_eventos fiesta = Hundredths 10000
   \<and> map (\<lambda>r. (evento_id r, precio_acordado r)) (evento_servicio db_precio_nan)
     = [(id_evento boda, Hundredths 45000), (id_evento fiesta, Numeric_nan)]
   \<and> calcular_total db_precio_nan fiesta = Numeric_nan
   \<and> evento_servicio db_boda = []
   \<and> calcular_total db_boda boda = Hundredths 0"
proof -
  have one: "map precio_acordado
       (filter (\<lambda>r. evento_id r = id_evento boda) (evento_servicio db_dos_eventos))
     = map Hundredths [45000]"
    by (simp add: db_dos_eventos_def boda_def)
  have two: "map precio_acordado
       (filter (\<lambda>r. evento_id r = id_evento fiesta) (evento_servicio db_dos_eventos))
     = map Hundredths [10000]"
    by (simp add: db_dos_eventos_def fiesta_def)
  have nan: "\<exists>r \<in> set (evento_servicio db_precio_nan). evento_id r = id_evento fiesta
          \<and> precio_acordado r = Numeric_nan"
    by (simp add: db_precio_nan_def fiesta_def)
  have none: "\<forall>r \<in> set (evento_servicio db_boda). evento_id r \<noteq> id_evento boda"
    by (simp add: db_boda_def)
  from calcular_total_exact_sum [of boda db_dos_eventos "[45000]"]
    calcular_total_exact_sum [of fiesta db_dos_eventos "[10000]"]
    calcular_total_exact_sum [of fiesta db_precio_nan]
    calcular_total_exact_sum [of boda db_boda]
    one two nan none
  show ?thesis by (simp add: db_precio_nan_def db_boda_def boda_def fiesta_def)
qed

text \<open>The scenario: with Catering attached at 450.00 the total is 450.00.\<close>

lemma calcular_total_scenario:
  "calcular_total db_boda_catering boda = Hundredths 45000"
  by (simp add: calcular_total_def py_sum_def servicios_contratados_def db_boda_catering_def
      boda_def)

section \<open>Access policy: owner or administrator\<close>


text \<open>The five handlers turn a logged-in actor away exactly when the policy says no.\<close>

lemma cliente_ver_evento_forbidden_iff:
  "get_evento st eid = Some e \<Longrightarrow>
   (cliente_ver_evento st (Some u) eid = Forbidden) = (\<not> can_view_event u e)"
  by (simp add: cliente_ver_evento_def)

lemma cliente_editar_evento_forbidden_iff:
  "get_evento st eid = Some e \<Longrightarrow>
   (fst (cliente_editar_evento strptime st (Some u) req eid) = Forbidden)
     = (\<not> can_mutate_event u e)"
  by (simp add: cliente_editar_evento_def split: option.splits)

lemma cliente_cancelar_evento_forbidden_iff:
  "get_evento st eid = Some e \<Longrightarrow>
   (fst (cliente_cancelar_evento st (Some u) eid) = Forbidden) = (\<not> can_mutate_event u e)"
  by (simp add: cliente_cancelar_evento_def)

lemma cliente_agregar_servicio_forbidden_iff:
  "get_evento st eid = Some e \<Longrightarrow>
   (fst (cliente_agregar_servicio st (Some u) eid sid_form precio_form) = Forbidden)
     = (\<not> can_mutate_event u e)"
  by (simp add: cliente_agregar_servicio_def split: option.splits)

lemma cliente_eliminar_servicio_forbidden_iff:
  "get_evento st eid = Some e \<Longrightarrow>
   (fst (cliente_eliminar_servicio st (Some u) eid sid) = Forbidden)
     = (\<not> can_mutate_event u e)"
  by (simp add: cliente_eliminar_servicio_def split: option.splits)

section \<open>Attaching a service: the price check\<close>

lemma to_numeric_450: "to_numeric_10_2 (Finite 450) = Some (Hundredths 45000)"
  by code_simp

lemma to_numeric_minus_5: "to_numeric_10_2 (Finite (- 5)) = Some (Hundredths (- 500))"
  by code_simp

lemma to_numeric_2500: "to_numeric_10_2 (Finite 2500) = Some (Hundredths 250000)"
  by code_simp

text \<open>The check \<open>not precio_acordado\<close> turns away a missing price and the price zero.\<close>

lemma agregar_servicio_zero_or_missing:
  assumes "get_evento st eid = Some e" and "can_mutate_event u e" and "py_not_float precio_form"
  shows "cliente_agregar_servicio st (Some u) eid sid_form precio_form = (Datos_incompletos, st)"
  using assms by (simp add: cliente_agregar_servicio_def)

lemma agregar_servicio_scenario:
  "cliente_agregar_servicio db_boda (Some alice) 1 (Some 1) (Some (Finite 450))
   = (Servicio_agregado, db_boda_catering)"
  by (simp add: cliente_agregar_servicio_def get_evento_def can_mutate_event_def es_admin_def
      py_not_def py_not_float_def to_numeric_450 get_servicio_def existe_def
      db_boda_def db_boda_catering_def boda_def alice_def catering_def)

text \<open>
  C3. The specification asks that an authorized attach fail unless the agreed price is strictly
  positive. The handler's check lets a negative price through: alice attaches Catering
  to her own event at -5, the call succeeds, and a row with price -5.00 is stored.
\<close>

theorem agregar_servicio_precio_negativo:
  "cliente_agregar_servicio db_boda (Some alice) 1 (Some 1) (Some (Finite (- 5)))
   = (Servicio_agregado,
      db_boda\<lparr>evento_servicio := [\<lparr>id_evento_servicio = 1, evento_id = 1, servicio_id = 1,
                                    precio_acordado = Hundredths (- 500)\<rparr>],
              evento_servicio_seq := 2\<rparr>)"
  by (simp add: cliente_agregar_servicio_def get_evento_def can_mutate_event_def es_admin_def
      py_not_def py_not_float_def to_numeric_minus_5 get_servicio_def existe_def
      db_boda_def boda_def alice_def catering_def)

text \<open>The same check lets NaN through, and the column stores it.\<close>

lemma agregar_servicio_precio_nan:
  "cliente_agregar_servicio db_boda (Some alice) 1 (Some 1) (Some Not_a_number)
   = (Servicio_agregado,
      db_boda\<lparr>evento_servicio := [\<lparr>id_evento_servicio = 1, evento_id = 1, servicio_id = 1,
                                    precio_acordado = Numeric_nan\<rparr>],
              evento_servicio_seq := 2\<rparr>)"
  by (simp add: cliente_agregar_servicio_def get_evento_def can_mutate_event_def es_admin_def
      py_not_def py_not_float_def to_numeric_10_2_def get_servicio_def existe_def
      db_boda_def boda_def alice_def catering_def)

section \<open>Attaching a service twice\<close>

lemma find_snoc:
  "find P (xs @ [x])
   = (case find P xs of None \<Rightarrow> (if P x then Some x else None) | Some y \<Rightarrow> Some y)"
  by (induction xs) simp_all

text \<open>
  C4. When the pair (event, service) is already in the association table, an attach call
  for the same pair leaves the database as it was, whatever else it carries; and a call
  that passes the earlier checks (the event exists, the actor may mutate it, service id and
  price are given and not zero, the service exists) is answered \<open>Ya_agregado\<close>.
\<close>

theorem agregar_servicio_ya_agregado:
  assumes "existe st eid sid = Some r"
  shows "snd (cliente_agregar_servicio st current_user eid (Some sid) precio_form) = st
     \<and> (get_evento st eid = Some e \<and> can_mutate_event u e \<and> sid \<noteq> 0
          \<and> \<not> py_not_float precio_form \<and> get_servicio st sid = Some s
        \<longrightarrow> cliente_agregar_servicio st (Some u) eid (Some sid) precio_form
              = (Ya_agregado, st))"
  using assms
  by (auto simp add: cliente_agregar_servicio_def py_not_def py_not_float_def
      split: option.splits)

theorem agregar_servicio_ya_agregado_witness:
  "existe db_boda_catering 1 1
     = Some \<lparr>id_evento_servicio = 1, evento_id = 1, servicio_id = 1,
             precio_acordado = Hundredths 45000\<rparr>
   \<and> get_evento db_boda_catering 1 = Some boda \<and> can_mutate_event alice boda
   \<and> (1::int) \<noteq> 0 \<and> \<not> py_not_float (Some (Finite 300))
   \<and> get_servicio db_boda_catering 1 = Some catering
   \<and> cliente_agregar_servicio db_boda_catering (Some alice) 1 (Some 1) (Some (Finite 300))
       = (Ya_agregado, db_boda_catering)
   \<and> calcular_total db_boda_catering boda = Hundredths 45000"
proof -
  have ex: "existe db_boda_catering 1 1
     = Some \<lparr>id_evento_servicio = 1, evento_id = 1, servicio_id = 1,
             precio_acordado = Hundredths 45000\<rparr>"
    by (simp add: existe_def db_boda_catering_def)
  have pre: "get_evento db_boda_catering 1 = Some boda \<and> can_mutate_event alice boda
     \<and> (1::int) \<noteq> 0 \<and> \<not> py_not_float (Some (Finite 300))
     \<and> get_servicio db_boda_catering 1 = Some catering"
    by (simp add: get_evento_def get_servicio_def db_boda_catering_def boda_def catering_def
        can_mutate_event_def alice_def py_not_float_def)
  have tot: "calcular_total db_boda_catering boda = Hundredths 45000"
    by (simp add: calcular_total_def py_sum_def servicios_contratados_def
        db_boda_catering_def boda_def)
  from agregar_servicio_ya_agregado [OF ex, of "Some alice" "Some (Finite 300)" boda alice
      catering]
    pre ex tot
  show ?thesis by simp
qed

text \<open>The two calls in a row: after a successful attach, the next one is refused.\<close>

lemma agregar_servicio_twice:
  assumes first: "cliente_agregar_servicio st (Some u) eid (Some sid) precio_form
                    = (Servicio_agregado, st')"
      and second: "can_mutate_event u2 e" "get_evento st eid = Some e" "\<not> py_not_float precio_form2"
  shows "cliente_agregar_servicio st' (Some u2) eid (Some sid) precio_form2 = (Ya_agregado, st')"
proof -
  from first second(2)
  have ok: "sid \<noteq> 0" "get_servicio st sid \<noteq> None" "existe st eid sid = None"
    by (auto simp add: cliente_agregar_servicio_def py_not_def py_not_float_def
        split: option.splits if_splits)
  from first second(2) ok obtain c where
    st': "st' = st\<lparr>evento_servicio := evento_servicio st @
                    [\<lparr>id_evento_servicio = evento_servicio_seq st, evento_id = eid,
                      servicio_id = sid, precio_acordado = c\<rparr>],
                  evento_servicio_seq := evento_servicio_seq st + 1\<rparr>"
    by (auto simp add: cliente_agregar_servicio_def py_not_def py_not_float_def
        split: option.splits if_splits)
  have "existe st' eid sid \<noteq> None"
    by (simp add: existe_def st' find_snoc split: option.splits)
  moreover have "get_evento st' eid = Some e"
    using second(2) by (simp add: get_evento_def st')
  moreover have "get_servicio st' sid \<noteq> None"
    using ok by (simp add: get_servicio_def st')
  ultimately show ?thesis
    using second ok(1)
    by (auto simp add: cliente_agregar_servicio_def py_not_def py_not_float_def
        split: option.splits)
qed

section \<open>Deleting a service that is in use\<close>

text \<open>
  C6. For an administrator and an existing service, let \<open>n\<close> be the number of rows of the
  association table whose \<open>servicio_id\<close> is the service's id. When \<open>n \<ge> 1\<close> the deletion
  is refused, the answer carries that \<open>n\<close>, and the database, with the service and all
  its association rows, is as before; when \<open>n = 0\<close> the service row is deleted; and
  the deletion succeeds exactly when \<open>n = 0\<close>.
\<close>

theorem admin_eliminar_servicio_en_uso:
  assumes "es_admin u" and "get_servicio st sid = Some s"
      and "n = length (filter (\<lambda>r. servicio_id r = sid) (evento_servicio st))"
  shows "(1 \<le> n \<longrightarrow>
            admin_eliminar_servicio st (Some u) sid = (Servicio_en_uso n, st))
       \<and> (n = 0 \<longrightarrow>
            admin_eliminar_servicio st (Some u) sid
              = (Servicio_eliminado,
                 st\<lparr>servicios :=
                      filter (\<lambda>x. id_servicios x \<noteq> id_servicios s) (servicios st)\<rparr>))
       \<and> ((fst (admin_eliminar_servicio st (Some u) sid) = Servicio_eliminado) = (n = 0))"
  using assms
  by (auto simp add: admin_eliminar_servicio_def admin_required_def en_uso_def Let_def)

theorem admin_eliminar_servicio_en_uso_witness:
  "es_admin admin_root \<and> get_servicio db_dos_eventos 1 = Some catering
   \<and> (2::nat) = length (filter (\<lambda>r. servicio_id r = 1) (evento_servicio db_dos_eventos))
   \<and> admin_eliminar_servicio db_dos_eventos (Some admin_root) 1
       = (Servicio_en_uso 2, db_dos_eventos)
   \<and> get_servicio db_boda 1 = Some catering
   \<and> (0::nat) = length (filter (\<lambda>r. servicio_id r = 1) (evento_servicio db_boda))
   \<and> admin_eliminar_servicio db_boda (Some admin_root) 1
       = (Servicio_eliminado, db_boda\<lparr>servicios := []\<rparr>)"
proof -
  have a: "es_admin admin_root" by (simp add: es_admin_def admin_root_def)
  have s1: "get_servicio db_dos_eventos 1 = Some catering"
    by (simp add: get_servicio_def db_dos_eventos_def catering_def)
  have s2: "get_servicio db_boda 1 = Some catering"
    by (simp add: get_servicio_def db_boda_def catering_def)
  have n1: "(2::nat) = length (filter (\<lambda>r. servicio_id r = 1) (evento_servicio db_dos_eventos))"
    by (simp add: db_dos_eventos_def)
  have n2: "(0::nat) = length (filter (\<lambda>r. servicio_id r = 1) (evento_servicio db_boda))"
    by (simp add: db_boda_def)
  have f: "filter (\<lambda>x. id_servicios x \<noteq> id_servicios catering) (servicios db_boda) = []"
    by (simp add: db_boda_def)
  from admin_eliminar_servicio_en_uso [OF a s1 n1] admin_eliminar_servicio_en_uso [OF a s2 n2]
    a s1 s2 n1 n2 f
  show ?thesis by simp
qed

text \<open>The count is taken per service: with two services in the table, only the rows of
  the one asked about are counted.\<close>

lemma admin_eliminar_servicio_counts_own_rows:
  "admin_eliminar_servicio
     (db_dos_eventos\<lparr>servicios := [catering, catering\<lparr>id_servicios := 2\<rparr>],
        evento_servicio := [\<lparr>id_evento_servicio = 1, evento_id = 1, servicio_id = 1,
                              precio_acordado = Hundredths 45000\<rparr>,
                            \<lparr>id_evento_servicio = 2, evento_id = 2, servicio_id = 2,
                              precio_acordado = Hundredths 10000\<rparr>,
                            \<lparr>id_evento_servicio = 3, evento_id = 1, servicio_id = 2,
                              precio_acordado = Hundredths 20000\<rparr>]\<rparr>)
     (Some admin_root) 1
   = (Servicio_en_uso 1,
      db_dos_eventos\<lparr>servicios := [catering, catering\<lparr>id_servicios := 2\<rparr>],
        evento_servicio := [\<lparr>id_evento_servicio = 1, evento_id = 1, servicio_id = 1,
                              precio_acordado = Hundredths 45000\<rparr>,
                            \<lparr>id_evento_servicio = 2, evento_id = 2, servicio_id = 2,
                              precio_acordado = Hundredths 10000\<rparr>,
                            \<lparr>id_evento_servicio = 3, evento_id = 1, servicio_id = 2,
                              precio_acordado = Hundredths 20000\<rparr>]\<rparr>)"
  by (simp add: admin_eliminar_servicio_def admin_required_def en_uso_def Let_def
      es_admin_def admin_root_def get_servicio_def catering_def)

text \<open>Whoever asks, a service row goes away only when no association row points at it,
  and no association row is ever touched.\<close>

lemma admin_eliminar_servicio_only_unused:
  "servicios (snd (admin_eliminar_servicio st current_user sid)) \<noteq> servicios st
   \<Longrightarrow> filter (\<lambda>r. servicio_id r = sid) (evento_servicio st) = []"
  by (auto simp add: admin_eliminar_servicio_def admin_required_def en_uso_def Let_def
      split: option.splits if_splits)

lemma admin_eliminar_servicio_keeps_attachments:
  "evento_servicio (snd (admin_eliminar_servicio st current_user sid)) = evento_servicio st"
  by (auto simp add: admin_eliminar_servicio_def admin_required_def Let_def
      split: option.splits if_splits)

section \<open>Cancelling an event\<close>

lemma get_evento_update_evento:
  assumes "\<And>x. id_evento (f x) = id_evento x"
  shows "get_evento (update_evento st eid f) eid = map_option f (get_evento st eid)"
proof -
  have "find (\<lambda>x. id_evento x = eid) (map (\<lambda>x. if id_evento x = eid then f x else x) xs)
        = map_option f (find (\<lambda>x. id_evento x = eid) xs)" for xs
    by (induction xs) (simp_all add: assms)
  then show ?thesis by (simp add: get_evento_def update_evento_def)
qed

lemma get_evento_id: "get_evento st eid = Some e \<Longrightarrow> id_evento e = eid"
  by (auto simp add: get_evento_def find_Some_iff)

text \<open>
  C7. For an existing event and an actor who may mutate it, the cancel request succeeds
  and the stored status becomes \<open>cancelado\<close>, whatever the status was: nothing is asked
  of the event's state, so a completed or an already cancelled event is cancelled too.
\<close>

theorem cancelar_evento_unconditional:
  assumes "get_evento st eid = Some e" and "can_mutate_event u e"
  shows "fst (cliente_cancelar_evento st (Some u) eid) = Evento_cancelado
       \<and> get_evento (snd (cliente_cancelar_evento st (Some u) eid)) eid
           = Some (e\<lparr>estado := ''cancelado''\<rparr>)"
  using assms get_evento_id [OF assms(1)]
  by (simp add: cliente_cancelar_evento_def get_evento_update_evento)

theorem cancelar_evento_unconditional_witness:
  "get_evento (db_boda\<lparr>eventos := [boda_completada]\<rparr>) 1 = Some boda_completada
   \<and> can_mutate_event alice boda_completada
   \<and> estado boda_completada = ''completado''
   \<and> fst (cliente_cancelar_evento (db_boda\<lparr>eventos := [boda_completada]\<rparr>) (Some alice) 1)
       = Evento_cancelado
   \<and> get_evento (snd (cliente_cancelar_evento (db_boda\<lparr>eventos := [boda_completada]\<rparr>) (Some alice) 1)) 1
       = Some (boda\<lparr>estado := ''cancelado''\<rparr>)"
proof -
  have g: "get_evento (db_boda\<lparr>eventos := [boda_completada]\<rparr>) 1 = Some boda_completada"
    by (simp add: get_evento_def boda_completada_def boda_def)
  have c: "can_mutate_event alice boda_completada"
    by (simp add: can_mutate_event_def boda_completada_def boda_def alice_def)
  have e: "estado boda_completada = ''completado''" 
    "boda_completada\<lparr>estado := ''cancelado''\<rparr> = boda\<lparr>estado := ''cancelado''\<rparr>"
    by (simp_all add: boda_completada_def)
  from cancelar_evento_unconditional [OF g c] g c e show ?thesis by simp
qed

section \<open>Login: password first, active flag second\<close>

text \<open>
  C10. For a deactivated account found under the submitted username: the answer is the
  account-disabled one exactly when nobody is logged in, the form is valid and the
  password is right for the account; with a wrong password a valid form gets the generic
  wrong-credentials answer.
\<close>

theorem login_password_before_active:
  assumes "find (\<lambda>u. username u = l_username f) (usuarios st) = Some usuario"
      and "\<not> activo usuario"
  shows "(login check_password_hash st current_user (Post csrf_ok f) = Cuenta_desactivada)
           = (current_user = None \<and> csrf_ok \<and> LoginForm_validate f
              \<and> check_password_hash (password_hash usuario) (l_password f))
       \<and> (\<not> check_password_hash (password_hash usuario) (l_password f)
            \<and> csrf_ok \<and> LoginForm_validate f
          \<longrightarrow> login check_password_hash st None (Post csrf_ok f) = Credenciales_incorrectas)"
  using assms by (auto simp add: login_def split: option.splits)

theorem login_password_before_active_witness:
  "find (\<lambda>u. username u = l_username (bruno_login ''wrong'')) (usuarios db_cuentas) = Some bruno
   \<and> \<not> activo bruno
   \<and> \<not> check_example (password_hash bruno) (l_password (bruno_login ''wrong''))
   \<and> LoginForm_validate (bruno_login ''wrong'')
   \<and> login check_example db_cuentas None (Post True (bruno_login ''wrong'')) = Credenciales_incorrectas"
proof -
  have f: "find (\<lambda>u. username u = l_username (bruno_login ''wrong'')) (usuarios db_cuentas) = Some bruno"
    by (simp add: bruno_login_def db_cuentas_def alice_def bruno_def)
  have a: "\<not> activo bruno" by (simp add: bruno_def)
  have c: "\<not> check_example (password_hash bruno) (l_password (bruno_login ''wrong''))"
    by (simp add: check_example_def bruno_def bruno_login_def)
  have v: "LoginForm_validate (bruno_login ''wrong'')"
    by (simp add: LoginForm_validate_def bruno_login_def DataRequired_def is_blank_def is_space_def
        Length_between_def)
  from login_password_before_active [OF f a, of check_example None True] c v f a
  show ?thesis by simp
qed

lemma login_scenario_disabled:
  "login check_example db_cuentas None (Post True (bruno_login ''secret2'')) = Cuenta_desactivada"
  by (simp add: login_def LoginForm_validate_def bruno_login_def DataRequired_def is_blank_def is_space_def
        Length_between_def db_cuentas_def alice_def bruno_def check_example_def)

section \<open>Editing an event: who sets the status\<close>

lemmas validator_defs = DataRequired_def is_blank_def is_space_def Length_between_def
  Length_max_def Optional_then_def valid_choice_def estado_choices_def

lemma fiesta_form_valid: "EventoForm_validate fiesta_form"
  by (simp add: EventoForm_validate_def fiesta_form_def validator_defs)

lemma get_evento_db_boda: "get_evento db_boda 1 = Some boda"
  by (simp add: get_evento_def db_boda_def boda_def)

lemma alice_boda: "can_mutate_event alice boda" "\<not> es_admin alice"
  by (simp_all add: can_mutate_event_def es_admin_def alice_def boda_def)

lemma fiesta_form_parse:
  "strptime_example (f_fecha_evento fiesta_form) = Some (2030, 6, 15, 17, 0)"
  "presupuesto_column (f_presupuesto_estimado fiesta_form) = Some (Some (Hundredths 250000))"
  by (simp_all add: strptime_example_def fiesta_form_def presupuesto_column_def to_numeric_2500)

text \<open>
  The status of an event is one of the four choices of the form. Such a status passes the
  status validators, whatever the other fields hold, so the verdict on a form does not
  depend on which of the four it carries.
\<close>

lemma valid_choice_DataRequired: "valid_choice estado_choices s \<Longrightarrow> DataRequired s"
  by (auto simp add: valid_choice_def estado_choices_def DataRequired_def is_blank_def
      is_space_def)

lemma EventoForm_validate_estado:
  assumes "valid_choice estado_choices s" and "valid_choice estado_choices (f_estado f)"
  shows "EventoForm_validate (f\<lparr>f_estado := s\<rparr>) = EventoForm_validate f"
  using assms valid_choice_DataRequired [OF assms(1)] valid_choice_DataRequired [OF assms(2)]
  by (simp add: EventoForm_validate_def)

text \<open>
  C5. For an existing event, an actor who may mutate it and a submitted status that is
  one of the four: the edit succeeds exactly when the token is good, the form validates,
  the date parses and the budget fits its column, for client and administrator alike.
  When the actor is a client the submitted status is ignored, not rejected: the answer
  and the database are the same whichever of the four statuses is submitted, and the
  stored status stays the old one. When the edit succeeds every other submitted field is
  stored, and the stored status is the submitted one for an administrator and the old
  one for a client.
\<close>

theorem editar_evento_estado_solo_admin:
  assumes ev: "get_evento st eid = Some e" and may: "can_mutate_event u e"
      and dom: "valid_choice estado_choices (f_estado f)"
  shows "((fst (cliente_editar_evento strptime st (Some u) (Post csrf_ok f) eid)
             = Evento_actualizado)
          = (csrf_ok \<and> EventoForm_validate f \<and> strptime (f_fecha_evento f) \<noteq> None
             \<and> presupuesto_column (f_presupuesto_estimado f) \<noteq> None))
       \<and> (\<not> es_admin u \<longrightarrow>
            (\<forall>s. valid_choice estado_choices s \<longrightarrow>
                 cliente_editar_evento strptime st (Some u) (Post csrf_ok (f\<lparr>f_estado := s\<rparr>)) eid
                 = cliente_editar_evento strptime st (Some u) (Post csrf_ok f) eid)
            \<and> map_option estado
                 (get_evento (snd (cliente_editar_evento strptime st (Some u) (Post csrf_ok f) eid))
                    eid)
               = Some (estado e))
       \<and> (fst (cliente_editar_evento strptime st (Some u) (Post csrf_ok f) eid)
             = Evento_actualizado
            \<and> strptime (f_fecha_evento f) = Some fecha
            \<and> presupuesto_column (f_presupuesto_estimado f) = Some presupuesto
          \<longrightarrow> get_evento (snd (cliente_editar_evento strptime st (Some u) (Post csrf_ok f) eid))
                eid
              = Some (e\<lparr>titulo := f_titulo f,
                        descripcion := f_descripcion f,
                        fecha_evento := fecha,
                        lugar := f_lugar f,
                        num_invitados := field_data (f_num_invitados f),
                        presupuesto_estimado := presupuesto,
                        estado := (if es_admin u then f_estado f else estado e)\<rparr>))"
proof (intro conjI impI allI)
  show "(fst (cliente_editar_evento strptime st (Some u) (Post csrf_ok f) eid)
             = Evento_actualizado)
          = (csrf_ok \<and> EventoForm_validate f \<and> strptime (f_fecha_evento f) \<noteq> None
             \<and> presupuesto_column (f_presupuesto_estimado f) \<noteq> None)"
    using ev may by (auto simp add: cliente_editar_evento_def split: option.splits)
next
  fix s
  assume client: "\<not> es_admin u" and s: "valid_choice estado_choices s"
  show "cliente_editar_evento strptime st (Some u) (Post csrf_ok (f\<lparr>f_estado := s\<rparr>)) eid
        = cliente_editar_evento strptime st (Some u) (Post csrf_ok f) eid"
    using ev may client
    by (simp add: cliente_editar_evento_def EventoForm_validate_estado [OF s dom] Let_def
        split: option.splits)
next
  assume client: "\<not> es_admin u"
  show "map_option estado
          (get_evento (snd (cliente_editar_evento strptime st (Some u) (Post csrf_ok f) eid)) eid)
        = Some (estado e)"
    using ev may client get_evento_id [OF ev]
    by (simp add: cliente_editar_evento_def get_evento_update_evento Let_def
        split: option.splits)
next
  assume "fst (cliente_editar_evento strptime st (Some u) (Post csrf_ok f) eid)
             = Evento_actualizado
            \<and> strptime (f_fecha_evento f) = Some fecha
            \<and> presupuesto_column (f_presupuesto_estimado f) = Some presupuesto"
  then show "get_evento (snd (cliente_editar_evento strptime st (Some u) (Post csrf_ok f) eid))
                eid
              = Some (e\<lparr>titulo := f_titulo f,
                        descripcion := f_descripcion f,
                        fecha_evento := fecha,
                        lugar := f_lugar f,
                        num_invitados := field_data (f_num_invitados f),
                        presupuesto_estimado := presupuesto,
                        estado := (if es_admin u then f_estado f else estado e)\<rparr>)"
    using ev may get_evento_id [OF ev]
    by (simp add: cliente_editar_evento_def get_evento_update_evento Let_def
        split: option.splits if_splits)
qed

theorem editar_evento_estado_solo_admin_witness:
  "get_evento db_boda 1 = Some boda \<and> can_mutate_event alice boda \<and> \<not> es_admin alice
   \<and> f_estado fiesta_form = ''confirmado''
   \<and> valid_choice estado_choices (f_estado fiesta_form)
   \<and> valid_choice estado_choices ''cancelado''
   \<and> EventoForm_validate fiesta_form
   \<and> strptime_example (f_fecha_evento fiesta_form) = Some (2030, 6, 15, 17, 0)
   \<and> presupuesto_column (f_presupuesto_estimado fiesta_form) = Some (Some (Hundredths 250000))
   \<and> fst (cliente_editar_evento strptime_example db_boda (Some alice) (Post True fiesta_form) 1)
       = Evento_actualizado
   \<and> cliente_editar_evento strptime_example db_boda (Some alice)
         (Post True (fiesta_form\<lparr>f_estado := ''cancelado''\<rparr>)) 1
       = cliente_editar_evento strptime_example db_boda (Some alice) (Post True fiesta_form) 1
   \<and> get_evento (snd (cliente_editar_evento strptime_example db_boda (Some alice)
                        (Post True fiesta_form) 1)) 1
       = Some \<lparr>id_evento = 1, usuario_id = 1, titulo = ''Garden Party'', descripcion = ''Flowers'',
               fecha_evento = (2030, 6, 15, 17, 0), lugar = ''Jardin Sur'',
               num_invitados = Some 80, presupuesto_estimado = Some (Hundredths 250000),
               estado = ''pendiente''\<rparr>
   \<and> can_mutate_event admin_root boda \<and> es_admin admin_root
   \<and> get_evento (snd (cliente_editar_evento strptime_example db_boda (Some admin_root)
                        (Post True fiesta_form) 1)) 1
       = Some \<lparr>id_evento = 1, usuario_id = 1, titulo = ''Garden Party'', descripcion = ''Flowers'',
               fecha_evento = (2030, 6, 15, 17, 0), lugar = ''Jardin Sur'',
               num_invitados = Some 80, presupuesto_estimado = Some (Hundredths 250000),
               estado = ''confirmado''\<rparr>"
proof -
  have dom: "valid_choice estado_choices (f_estado fiesta_form)"
    "valid_choice estado_choices ''cancelado''"
    by (simp_all add: valid_choice_def estado_choices_def fiesta_form_def)
  have root: "can_mutate_event admin_root boda" "es_admin admin_root"
    by (simp_all add: can_mutate_event_def es_admin_def admin_root_def)
  have fields: "f_estado fiesta_form = ''confirmado''"
    "boda\<lparr>titulo := f_titulo fiesta_form, descripcion := f_descripcion fiesta_form,
           fecha_evento := (2030, 6, 15, 17, 0), lugar := f_lugar fiesta_form,
           num_invitados := field_data (f_num_invitados fiesta_form),
           presupuesto_estimado := Some (Hundredths 250000), estado := estado boda\<rparr>
     = \<lparr>id_evento = 1, usuario_id = 1, titulo = ''Garden Party'', descripcion = ''Flowers'',
               fecha_evento = (2030, 6, 15, 17, 0), lugar = ''Jardin Sur'',
               num_invitados = Some 80, presupuesto_estimado = Some (Hundredths 250000),
               estado = ''pendiente''\<rparr>"
    "boda\<lparr>titulo := f_titulo fiesta_form, descripcion := f_descripcion fiesta_form,
           fecha_evento := (2030, 6, 15, 17, 0), lugar := f_lugar fiesta_form,
           num_invitados := field_data (f_num_invitados fiesta_form),
           presupuesto_estimado := Some (Hundredths 250000), estado := ''confirmado''\<rparr>
     = \<lparr>id_evento = 1, usuario_id = 1, titulo = ''Garden Party'', descripcion = ''Flowers'',
               fecha_evento = (2030, 6, 15, 17, 0), lugar = ''Jardin Sur'',
               num_invitados = Some 80, presupuesto_estimado = Some (Hundredths 250000),
               estado = ''confirmado''\<rparr>"
    by (simp_all add: fiesta_form_def boda_def)
  from editar_evento_estado_solo_admin [OF get_evento_db_boda alice_boda(1) dom(1),
      of strptime_example True "(2030, 6, 15, 17, 0)" "Some (Hundredths 250000)"]
    editar_evento_estado_solo_admin [OF get_evento_db_boda root(1) dom(1),
      of strptime_example True "(2030, 6, 15, 17, 0)" "Some (Hundredths 250000)"]
    fiesta_form_valid fiesta_form_parse get_evento_db_boda alice_boda dom root fields
  show ?thesis by simp
qed

text \<open>
  A text outside the four choices is not a status of the data model. The SelectField of
  the form turns it away for every actor: the form is shown again and nothing is stored.
\<close>

lemma editar_evento_estado_fuera_de_opciones:
  "\<not> valid_choice estado_choices (f_estado f) \<Longrightarrow> get_evento st eid = Some e \<Longrightarrow>
   can_mutate_event u e \<Longrightarrow>
   cliente_editar_evento strptime st (Some u) (Post csrf_ok f) eid = (Render_form, st)"
  by (simp add: cliente_editar_evento_def EventoForm_validate_def)

text \<open>The two other ways a validated form is turned away: a date that does not parse,
  and a budget beyond the ten digits of its column.\<close>

lemma to_numeric_too_large: "to_numeric_10_2 (Finite 100000000) = None"
  by code_simp

lemma editar_evento_fecha_invalida:
  "EventoForm_validate (fiesta_form\<lparr>f_fecha_evento := ''tomorrow''\<rparr>)
   \<and> cliente_editar_evento strptime_example db_boda (Some alice)
        (Post True (fiesta_form\<lparr>f_fecha_evento := ''tomorrow''\<rparr>)) 1
       = (Fecha_invalida, db_boda)"
  by (simp add: cliente_editar_evento_def get_evento_db_boda alice_boda EventoForm_validate_def
      fiesta_form_def validator_defs strptime_example_def)

lemma editar_evento_presupuesto_fuera_de_rango:
  "EventoForm_validate (fiesta_form\<lparr>f_presupuesto_estimado := Parsed (Finite 100000000)\<rparr>)
   \<and> cliente_editar_evento strptime_example db_boda (Some alice)
        (Post True (fiesta_form\<lparr>f_presupuesto_estimado := Parsed (Finite 100000000)\<rparr>)) 1
       = (Server_error, db_boda)"
  by (simp add: cliente_editar_evento_def get_evento_db_boda alice_boda EventoForm_validate_def
      fiesta_form_def validator_defs strptime_example_def presupuesto_column_def
      to_numeric_too_large)

text \<open>A title of five no-break spaces is blank for \<open>DataRequired\<close> and does not
  validate.\<close>

lemma titulo_nbsp_rejected:
  "\<not> EventoForm_validate
       (fiesta_form\<lparr>f_titulo := [CHR 0xA0, CHR 0xA0, CHR 0xA0, CHR 0xA0, CHR 0xA0]\<rparr>)"
  by (simp add: EventoForm_validate_def DataRequired_def is_blank_def is_space_def)

section \<open>Attach, then detach\<close>

lemma calcular_total_rows:
  "evento_servicio st2 = evento_servicio st1 \<Longrightarrow> calcular_total st2 e = calcular_total st1 e"
  by (simp add: calcular_total_def servicios_contratados_def)

lemma agregar_servicio_success:
  assumes "cliente_agregar_servicio st current_user eid (Some sid) precio_form = (Servicio_agregado, st')"
  shows "existe st eid sid = None
       \<and> (\<exists>c. st' = st\<lparr>evento_servicio := evento_servicio st @
                    [\<lparr>id_evento_servicio = evento_servicio_seq st, evento_id = eid,
                      servicio_id = sid, precio_acordado = c\<rparr>],
                  evento_servicio_seq := evento_servicio_seq st + 1\<rparr>)"
proof (cases current_user)
  case None
  with assms show ?thesis by (simp add: cliente_agregar_servicio_def)
next
  case (Some u)
  show ?thesis
  proof (cases "get_evento st eid")
    case None
    with assms Some show ?thesis by (simp add: cliente_agregar_servicio_def)
  next
    case (Some e)
    note ev = this
    show ?thesis
    proof (cases precio_form)
      case None
      with assms \<open>current_user = Some u\<close> ev show ?thesis
        by (simp add: cliente_agregar_servicio_def py_not_def py_not_float_def split: if_splits)
    next
      case (Some precio)
      note pr = this
      show ?thesis
      proof (cases "get_servicio st sid")
        case None
        with assms \<open>current_user = Some u\<close> ev pr show ?thesis
          by (simp add: cliente_agregar_servicio_def py_not_def py_not_float_def split: if_splits)
      next
        case (Some s)
        note sv = this
        show ?thesis
        proof (cases "existe st eid sid")
          case (Some r)
          with assms \<open>current_user = Some u\<close> ev pr sv show ?thesis
            by (simp add: cliente_agregar_servicio_def py_not_def py_not_float_def split: if_splits)
        next
          case None
          note ex = this
          show ?thesis
          proof (cases "to_numeric_10_2 precio")
            case None
            with assms \<open>current_user = Some u\<close> ev pr sv ex show ?thesis
              by (simp add: cliente_agregar_servicio_def py_not_def py_not_float_def split: if_splits)
          next
            case (Some c)
            with assms \<open>current_user = Some u\<close> ev pr sv ex show ?thesis
              by (simp add: cliente_agregar_servicio_def py_not_def py_not_float_def split: if_splits) blast
          qed
        qed
      qed
    qed
  qed
qed

lemma filter_fresh_id:
  assumes "list_all (\<lambda>r. id_evento_servicio r < k) rows"
  shows "filter (\<lambda>x. id_evento_servicio x \<noteq> k) rows = rows"
  using assms by (induction rows) auto

text \<open>
  C8. In a well-formed database, after a successful attach of a service to an event, the
  detach of that service by any actor who may mutate the event succeeds and leaves the
  association table as it was before the attach; so the total of every event is back at
  its earlier value, whatever the agreed price was.
\<close>

theorem agregar_then_eliminar_restores_total:
  assumes wf: "wf_db st"
      and attach: "cliente_agregar_servicio st current_user eid (Some sid) precio_form
                     = (Servicio_agregado, st')"
      and ev: "get_evento st eid = Some e0" and may: "can_mutate_event u2 e0"
  shows "fst (cliente_eliminar_servicio st' (Some u2) eid sid) = Servicio_quitado
       \<and> evento_servicio (snd (cliente_eliminar_servicio st' (Some u2) eid sid)) = evento_servicio st
       \<and> calcular_total (snd (cliente_eliminar_servicio st' (Some u2) eid sid)) e
           = calcular_total st e"
proof -
  from agregar_servicio_success [OF attach] obtain c where
    none: "existe st eid sid = None" and
    st': "st' = st\<lparr>evento_servicio := evento_servicio st @
                    [\<lparr>id_evento_servicio = evento_servicio_seq st, evento_id = eid,
                      servicio_id = sid, precio_acordado = c\<rparr>],
                  evento_servicio_seq := evento_servicio_seq st + 1\<rparr>"
    by blast
  let ?new = "\<lparr>id_evento_servicio = evento_servicio_seq st, evento_id = eid,
                servicio_id = sid, precio_acordado = c\<rparr>"
  have ev': "get_evento st' eid = Some e0" using ev by (simp add: get_evento_def st')
  have found: "existe st' eid sid = Some ?new"
    using none by (simp add: existe_def st' find_snoc)
  have fresh: "list_all (\<lambda>r. id_evento_servicio r < evento_servicio_seq st) (evento_servicio st)"
    using wf by (simp add: wf_db_def)
  have rows: "filter (\<lambda>x. id_evento_servicio x \<noteq> id_evento_servicio ?new) (evento_servicio st') = evento_servicio st"
    by (simp add: st' filter_fresh_id [OF fresh])
  have res: "cliente_eliminar_servicio st' (Some u2) eid sid
        = (Servicio_quitado, st'\<lparr>evento_servicio := evento_servicio st\<rparr>)"
    using ev' may found rows by (simp add: cliente_eliminar_servicio_def)
  have same: "evento_servicio (snd (cliente_eliminar_servicio st' (Some u2) eid sid))
                = evento_servicio st"
    by (simp add: res)
  from res same calcular_total_rows [OF same, of e] show ?thesis by simp
qed

lemma wf_db_boda: "wf_db db_boda"
  by (simp add: wf_db_def db_boda_def boda_def)

theorem agregar_then_eliminar_restores_total_witness:
  "wf_db db_boda
   \<and> cliente_agregar_servicio db_boda (Some alice) 1 (Some 1) (Some (Finite 450))
       = (Servicio_agregado, db_boda_catering)
   \<and> get_evento db_boda 1 = Some boda \<and> can_mutate_event alice boda
   \<and> calcular_total db_boda boda = Hundredths 0
   \<and> calcular_total db_boda_catering boda = Hundredths 45000
   \<and> fst (cliente_eliminar_servicio db_boda_catering (Some alice) 1 1) = Servicio_quitado
   \<and> calcular_total (snd (cliente_eliminar_servicio db_boda_catering (Some alice) 1 1)) boda
       = Hundredths 0"
proof -
  have t0: "calcular_total db_boda boda = Hundredths 0"
    by (simp add: calcular_total_def py_sum_def servicios_contratados_def db_boda_def)
  have t1: "calcular_total db_boda_catering boda = Hundredths 45000"
    by (simp add: calcular_total_def py_sum_def servicios_contratados_def db_boda_catering_def boda_def)
  from agregar_then_eliminar_restores_total [OF wf_db_boda agregar_servicio_scenario get_evento_db_boda alice_boda(1), of boda]
    wf_db_boda agregar_servicio_scenario get_evento_db_boda alice_boda(1) t0 t1
  show ?thesis by simp
qed

section \<open>Ownership of events\<close>

text \<open>What each handler leaves alone.\<close>

lemma owners_update_evento:
  assumes "\<And>x. id_evento (f x) = id_evento x" and "\<And>x. usuario_id (f x) = usuario_id x"
  shows "owners (update_evento st eid f) = owners st"
  by (simp add: owners_def update_evento_def assms)

lemma eventos_seq_update_evento: "eventos_seq (update_evento st eid f) = eventos_seq st"
  by (simp add: update_evento_def)

lemma rows_update_evento:
  "evento_servicio (update_evento st eid f) = evento_servicio st"
  "evento_servicio_seq (update_evento st eid f) = evento_servicio_seq st"
  by (simp_all add: update_evento_def)

lemma editar_evento_owners:
  "owners (snd (cliente_editar_evento strptime st current_user req eid)) = owners st"
  by (simp add: cliente_editar_evento_def owners_update_evento Let_def split: option.splits)

lemma editar_evento_frame:
  "eventos_seq (snd (cliente_editar_evento strptime st current_user req eid)) = eventos_seq st"
  "evento_servicio (snd (cliente_editar_evento strptime st current_user req eid)) = evento_servicio st"
  "evento_servicio_seq (snd (cliente_editar_evento strptime st current_user req eid)) = evento_servicio_seq st"
  by (simp_all add: cliente_editar_evento_def eventos_seq_update_evento rows_update_evento split: option.splits)

lemma cancelar_evento_owners:
  "owners (snd (cliente_cancelar_evento st current_user eid)) = owners st"
  by (simp add: cliente_cancelar_evento_def owners_update_evento split: option.splits)

lemma cancelar_evento_frame:
  "eventos_seq (snd (cliente_cancelar_evento st current_user eid)) = eventos_seq st"
  "evento_servicio (snd (cliente_cancelar_evento st current_user eid)) = evento_servicio st"
  "evento_servicio_seq (snd (cliente_cancelar_evento st current_user eid)) = evento_servicio_seq st"
  by (simp_all add: cliente_cancelar_evento_def eventos_seq_update_evento rows_update_evento split: option.splits)

lemma agregar_servicio_frame:
  "eventos (snd (cliente_agregar_servicio st current_user eid sid_form precio_form)) = eventos st"
  "eventos_seq (snd (cliente_agregar_servicio st current_user eid sid_form precio_form)) = eventos_seq st"
  by (simp_all add: cliente_agregar_servicio_def split: option.splits)

lemma eliminar_servicio_frame:
  "eventos (snd (cliente_eliminar_servicio st current_user eid sid)) = eventos st"
  "eventos_seq (snd (cliente_eliminar_servicio st current_user eid sid)) = eventos_seq st"
  by (simp_all add: cliente_eliminar_servicio_def split: option.splits)

lemma admin_eliminar_servicio_frame:
  "eventos (snd (admin_eliminar_servicio st current_user sid)) = eventos st"
  "eventos_seq (snd (admin_eliminar_servicio st current_user sid)) = eventos_seq st"
  "evento_servicio_seq (snd (admin_eliminar_servicio st current_user sid)) = evento_servicio_seq st"
  by (simp_all add: admin_eliminar_servicio_def Let_def split: option.splits)

lemma admin_toggle_frame:
  "eventos (snd (admin_toggle_usuario_activo st current_user uid)) = eventos st"
  "eventos_seq (snd (admin_toggle_usuario_activo st current_user uid)) = eventos_seq st"
  "evento_servicio (snd (admin_toggle_usuario_activo st current_user uid)) = evento_servicio st"
  "evento_servicio_seq (snd (admin_toggle_usuario_activo st current_user uid)) = evento_servicio_seq st"
  by (simp_all add: admin_toggle_usuario_activo_def split: option.splits)

text \<open>A create request either changes nothing and reports no new event, or appends one
  event under the next key of the sequence, owned by the current user.\<close>

lemma nuevo_evento_cases:
  assumes "cliente_nuevo_evento strptime st current_user req = (resp, st')"
  shows "(st' = st \<and> (\<forall>k. resp \<noteq> Evento_creado k))
       \<or> (\<exists>u nuevo. current_user = Some u \<and> resp = Evento_creado (eventos_seq st)
            \<and> id_evento nuevo = eventos_seq st \<and> usuario_id nuevo = id_usuario u
            \<and> st' = st\<lparr>eventos := eventos st @ [nuevo], eventos_seq := eventos_seq st + 1\<rparr>)"
proof (cases current_user)
  case None
  with assms show ?thesis by (auto simp add: cliente_nuevo_evento_def)
next
  case (Some u)
  note cu = this
  show ?thesis
  proof (cases "validate_on_submit EventoForm_validate req")
    case None
    with assms cu show ?thesis by (auto simp add: cliente_nuevo_evento_def)
  next
    case (Some f)
    note fm = this
    show ?thesis
    proof (cases "strptime (f_fecha_evento f)")
      case None
      with assms cu fm show ?thesis by (auto simp add: cliente_nuevo_evento_def)
    next
      case (Some fecha)
      note fe = this
      show ?thesis
      proof (cases "presupuesto_column (f_presupuesto_estimado f)")
        case None
        with assms cu fm fe show ?thesis by (auto simp add: cliente_nuevo_evento_def)
      next
        case (Some presupuesto)
        let ?nuevo = "\<lparr>id_evento = eventos_seq st, usuario_id = id_usuario u,
                        titulo = f_titulo f, descripcion = f_descripcion f,
                        fecha_evento = fecha, lugar = f_lugar f,
                        num_invitados = field_data (f_num_invitados f),
                        presupuesto_estimado = presupuesto, estado = ''pendiente''\<rparr>"
        from assms cu fm fe Some
        have "resp = Evento_creado (eventos_seq st)"
          and "st' = st\<lparr>eventos := eventos st @ [?nuevo], eventos_seq := eventos_seq st + 1\<rparr>"
          by (simp_all add: cliente_nuevo_evento_def Let_def)
        then have "current_user = Some u \<and> resp = Evento_creado (eventos_seq st)
            \<and> id_evento ?nuevo = eventos_seq st \<and> usuario_id ?nuevo = id_usuario u
            \<and> st' = st\<lparr>eventos := eventos st @ [?nuevo], eventos_seq := eventos_seq st + 1\<rparr>"
          using cu by simp
        then show ?thesis by blast
      qed
    qed
  qed
qed

lemma registrar_creador_other:
  "\<forall>k. resp \<noteq> Evento_creado k \<Longrightarrow> registrar_creador creador current_user resp = creador"
  by (cases current_user; cases resp) simp_all

lemma reach_owner_book: "reach strptime st creador \<Longrightarrow> owner_book st creador"
proof (induction rule: reach.induct)
  case reach_init
  show ?case by (simp add: owner_book_def owners_def empty_db_def)
next
  case (reach_nuevo_evento st creador current_user req resp st')
  from nuevo_evento_cases [OF reach_nuevo_evento.hyps(2)] show ?case
  proof
    assume "st' = st \<and> (\<forall>k. resp \<noteq> Evento_creado k)"
    with reach_nuevo_evento.IH show ?thesis by (simp add: registrar_creador_other)
  next
    assume "\<exists>u nuevo. current_user = Some u \<and> resp = Evento_creado (eventos_seq st)
            \<and> id_evento nuevo = eventos_seq st \<and> usuario_id nuevo = id_usuario u
            \<and> st' = st\<lparr>eventos := eventos st @ [nuevo], eventos_seq := eventos_seq st + 1\<rparr>"
    then obtain u nuevo where n: "current_user = Some u" "resp = Evento_creado (eventos_seq st)"
      "id_evento nuevo = eventos_seq st" "usuario_id nuevo = id_usuario u"
      "st' = st\<lparr>eventos := eventos st @ [nuevo], eventos_seq := eventos_seq st + 1\<rparr>"
      by blast
    from reach_nuevo_evento.IH
    have old: "list_all (\<lambda>(k, u). k < eventos_seq st \<and> creador k = Some u) (owners st)"
      by (simp add: owner_book_def)
    have "list_all (\<lambda>(k, v). k < eventos_seq st + 1
              \<and> (creador(eventos_seq st \<mapsto> id_usuario u)) k = Some v) (owners st)"
      using old by (auto simp add: list_all_iff)
    with n show ?thesis by (simp add: owner_book_def owners_def)
  qed
next
  case (reach_editar_evento st creador current_user req eid resp st')
  from reach_editar_evento.hyps(2) have "st' = snd (cliente_editar_evento strptime st current_user req eid)"
    by simp
  with reach_editar_evento.IH show ?case
    by (simp add: owner_book_def editar_evento_owners editar_evento_frame)
next
  case (reach_cancelar_evento st creador current_user eid resp st')
  from reach_cancelar_evento.hyps(2) have "st' = snd (cliente_cancelar_evento st current_user eid)"
    by simp
  with reach_cancelar_evento.IH show ?case
    by (simp add: owner_book_def cancelar_evento_owners cancelar_evento_frame)
next
  case (reach_agregar_servicio st creador current_user eid sid_form precio_form resp st')
  from reach_agregar_servicio.hyps(2)
  have "st' = snd (cliente_agregar_servicio st current_user eid sid_form precio_form)" by simp
  with reach_agregar_servicio.IH show ?case
    by (simp add: owner_book_def owners_def agregar_servicio_frame)
next
  case (reach_eliminar_servicio st creador current_user eid sid resp st')
  from reach_eliminar_servicio.hyps(2)
  have "st' = snd (cliente_eliminar_servicio st current_user eid sid)" by simp
  with reach_eliminar_servicio.IH show ?case
    by (simp add: owner_book_def owners_def eliminar_servicio_frame)
next
  case (reach_admin_eliminar_servicio st creador current_user sid resp st')
  from reach_admin_eliminar_servicio.hyps(2)
  have "st' = snd (admin_eliminar_servicio st current_user sid)" by simp
  with reach_admin_eliminar_servicio.IH show ?case
    by (simp add: owner_book_def owners_def admin_eliminar_servicio_frame)
next
  case (reach_admin_toggle_usuario_activo st creador current_user uid resp st')
  from reach_admin_toggle_usuario_activo.hyps(2)
  have "st' = snd (admin_toggle_usuario_activo st current_user uid)" by simp
  with reach_admin_toggle_usuario_activo.IH show ?case
    by (simp add: owner_book_def owners_def admin_toggle_frame)
next
  case (reach_other_tables st creador st' us ss)
  then show ?case by (simp add: owner_book_def owners_def)
qed


text \<open>Every reachable database is well formed.\<close>

lemma wf_db_owners:
  "wf_db st =
     (distinct (map fst (owners st))
      \<and> list_all (\<lambda>k. k < eventos_seq st) (map fst (owners st))
      \<and> distinct (map id_evento_servicio (evento_servicio st))
      \<and> list_all (\<lambda>r. id_evento_servicio r < evento_servicio_seq st) (evento_servicio st))"
  by (simp add: wf_db_def owners_def comp_def list_all_iff)

lemma agregar_servicio_rows_cases:
  "(evento_servicio (snd (cliente_agregar_servicio st current_user eid sid_form precio_form))
      = evento_servicio st
    \<and> evento_servicio_seq (snd (cliente_agregar_servicio st current_user eid sid_form precio_form))
      = evento_servicio_seq st)
   \<or> (\<exists>row. id_evento_servicio row = evento_servicio_seq st
        \<and> evento_servicio (snd (cliente_agregar_servicio st current_user eid sid_form precio_form))
            = evento_servicio st @ [row]
        \<and> evento_servicio_seq (snd (cliente_agregar_servicio st current_user eid sid_form precio_form))
            = evento_servicio_seq st + 1)"
proof (cases "fst (cliente_agregar_servicio st current_user eid sid_form precio_form) = Servicio_agregado")
  case False
  then have "snd (cliente_agregar_servicio st current_user eid sid_form precio_form) = st"
    by (auto simp add: cliente_agregar_servicio_def split: option.splits if_splits)
  then show ?thesis by simp
next
  case True
  then obtain sid where sf: "sid_form = Some sid"
    by (cases sid_form)
       (simp_all add: cliente_agregar_servicio_def py_not_def py_not_float_def
          split: option.splits if_splits)
  from True sf have "cliente_agregar_servicio st current_user eid (Some sid) precio_form
      = (Servicio_agregado, snd (cliente_agregar_servicio st current_user eid sid_form precio_form))"
    by (simp add: prod_eq_iff)
  from agregar_servicio_success [OF this] obtain c where
    "snd (cliente_agregar_servicio st current_user eid sid_form precio_form)
       = st\<lparr>evento_servicio := evento_servicio st @
                    [\<lparr>id_evento_servicio = evento_servicio_seq st, evento_id = eid,
                      servicio_id = sid, precio_acordado = c\<rparr>],
                  evento_servicio_seq := evento_servicio_seq st + 1\<rparr>"
    by blast
  then show ?thesis by simp
qed

lemma eliminar_servicio_rows:
  "\<exists>P. evento_servicio (snd (cliente_eliminar_servicio st current_user eid sid))
         = filter P (evento_servicio st)"
proof (cases "fst (cliente_eliminar_servicio st current_user eid sid) = Servicio_quitado")
  case False
  then have "snd (cliente_eliminar_servicio st current_user eid sid) = st"
    by (auto simp add: cliente_eliminar_servicio_def split: option.splits if_splits)
  then have "evento_servicio (snd (cliente_eliminar_servicio st current_user eid sid))
         = filter (\<lambda>x. True) (evento_servicio st)" by simp
  then show ?thesis by blast
next
  case True
  then obtain r :: evento_servicio_row where "evento_servicio (snd (cliente_eliminar_servicio st current_user eid sid))
      = filter (\<lambda>x. id_evento_servicio x \<noteq> id_evento_servicio r) (evento_servicio st)"
    by (auto simp add: cliente_eliminar_servicio_def split: option.splits if_splits)
  then show ?thesis by blast
qed

lemma eliminar_servicio_seq:
  "evento_servicio_seq (snd (cliente_eliminar_servicio st current_user eid sid)) = evento_servicio_seq st"
  by (simp add: cliente_eliminar_servicio_def split: option.splits)

lemma list_all_less_mono:
  "list_all (\<lambda>x. f x < (k::int)) xs \<Longrightarrow> list_all (\<lambda>x. f x < k + 1) xs"
  by (induction xs) auto

lemma distinct_snoc_fresh:
  "distinct (map f xs) \<Longrightarrow> list_all (\<lambda>x. f x < (k::int)) xs \<Longrightarrow> f y = k \<Longrightarrow> distinct (map f (xs @ [y]))"
  by (auto simp add: list_all_iff)

lemma reach_wf_db: "reach strptime st creador \<Longrightarrow> wf_db st"
proof (induction rule: reach.induct)
  case reach_init
  show ?case by (simp add: wf_db_def empty_db_def)
next
  case (reach_nuevo_evento st creador current_user req resp st')
  from nuevo_evento_cases [OF reach_nuevo_evento.hyps(2)] show ?case
  proof
    assume "st' = st \<and> (\<forall>k. resp \<noteq> Evento_creado k)"
    with reach_nuevo_evento.IH show ?thesis by simp
  next
    assume "\<exists>u nuevo. current_user = Some u \<and> resp = Evento_creado (eventos_seq st)
            \<and> id_evento nuevo = eventos_seq st \<and> usuario_id nuevo = id_usuario u
            \<and> st' = st\<lparr>eventos := eventos st @ [nuevo], eventos_seq := eventos_seq st + 1\<rparr>"
    then obtain nuevo where n: "id_evento nuevo = eventos_seq st"
      "st' = st\<lparr>eventos := eventos st @ [nuevo], eventos_seq := eventos_seq st + 1\<rparr>"
      by blast
    from reach_nuevo_evento.IH have w: "distinct (map id_evento (eventos st))"
      "list_all (\<lambda>e. id_evento e < eventos_seq st) (eventos st)"
      "distinct (map id_evento_servicio (evento_servicio st))"
      "list_all (\<lambda>r. id_evento_servicio r < evento_servicio_seq st) (evento_servicio st)"
      by (simp_all add: wf_db_def)
    from distinct_snoc_fresh [OF w(1) w(2) n(1)] list_all_less_mono [OF w(2)] w(3) w(4) n
    show ?thesis by (simp add: wf_db_def)
  qed
next
  case (reach_editar_evento st creador current_user req eid resp st')
  from reach_editar_evento.hyps(2) have "st' = snd (cliente_editar_evento strptime st current_user req eid)"
    by simp
  with reach_editar_evento.IH show ?case
    by (simp add: wf_db_owners editar_evento_owners editar_evento_frame)
next
  case (reach_cancelar_evento st creador current_user eid resp st')
  from reach_cancelar_evento.hyps(2) have "st' = snd (cliente_cancelar_evento st current_user eid)"
    by simp
  with reach_cancelar_evento.IH show ?case
    by (simp add: wf_db_owners cancelar_evento_owners cancelar_evento_frame)
next
  case (reach_agregar_servicio st creador current_user eid sid_form precio_form resp st')
  from reach_agregar_servicio.hyps(2)
  have st': "st' = snd (cliente_agregar_servicio st current_user eid sid_form precio_form)" by simp
  from reach_agregar_servicio.IH have w: "distinct (map id_evento (eventos st))"
      "list_all (\<lambda>e. id_evento e < eventos_seq st) (eventos st)"
      "distinct (map id_evento_servicio (evento_servicio st))"
      "list_all (\<lambda>r. id_evento_servicio r < evento_servicio_seq st) (evento_servicio st)"
      by (simp_all add: wf_db_def)
  from agregar_servicio_rows_cases [of st current_user eid sid_form precio_form] show ?case
  proof
    assume "evento_servicio (snd (cliente_agregar_servicio st current_user eid sid_form precio_form))
      = evento_servicio st
    \<and> evento_servicio_seq (snd (cliente_agregar_servicio st current_user eid sid_form precio_form))
      = evento_servicio_seq st"
    with w show ?thesis by (simp add: wf_db_def st' agregar_servicio_frame)
  next
    assume "\<exists>row. id_evento_servicio row = evento_servicio_seq st
        \<and> evento_servicio (snd (cliente_agregar_servicio st current_user eid sid_form precio_form))
            = evento_servicio st @ [row]
        \<and> evento_servicio_seq (snd (cliente_agregar_servicio st current_user eid sid_form precio_form))
            = evento_servicio_seq st + 1"
    then obtain row where r: "id_evento_servicio row = evento_servicio_seq st"
      "evento_servicio st' = evento_servicio st @ [row]"
      "evento_servicio_seq st' = evento_servicio_seq st + 1"
      using st' by blast
    from distinct_snoc_fresh [OF w(3) w(4) r(1)] list_all_less_mono [OF w(4)] w(1) w(2) r
    show ?thesis by (simp add: wf_db_def st' agregar_servicio_frame)
  qed
next
  case (reach_eliminar_servicio st creador current_user eid sid resp st')
  from reach_eliminar_servicio.hyps(2)
  have st': "st' = snd (cliente_eliminar_servicio st current_user eid sid)" by simp
  from eliminar_servicio_rows [of st current_user eid sid] obtain P where
    "evento_servicio st' = filter P (evento_servicio st)" using st' by blast
  with reach_eliminar_servicio.IH show ?case
    by (simp add: wf_db_def st' eliminar_servicio_frame eliminar_servicio_seq
        distinct_map_filter list_all_iff)
next
  case (reach_admin_eliminar_servicio st creador current_user sid resp st')
  from reach_admin_eliminar_servicio.hyps(2)
  have "st' = snd (admin_eliminar_servicio st current_user sid)" by simp
  with reach_admin_eliminar_servicio.IH show ?case
    by (simp add: wf_db_def admin_eliminar_servicio_frame admin_eliminar_servicio_keeps_attachments)
next
  case (reach_admin_toggle_usuario_activo st creador current_user uid resp st')
  from reach_admin_toggle_usuario_activo.hyps(2)
  have "st' = snd (admin_toggle_usuario_activo st current_user uid)" by simp
  with reach_admin_toggle_usuario_activo.IH show ?case
    by (simp add: wf_db_def admin_toggle_frame)
next
  case (reach_other_tables st creador st' us ss)
  then show ?case by (simp add: wf_db_def)
qed

lemma nuevo_evento_scenario:
  "cliente_nuevo_evento strptime_example db_cuentas (Some alice) (Post True boda_form)
   = (Evento_creado 1, db_boda)"
  by (simp add: cliente_nuevo_evento_def EventoForm_validate_def boda_form_def validator_defs
      strptime_example_def presupuesto_column_def db_cuentas_def db_boda_def boda_def alice_def)

lemma reach_db_boda: "reach strptime_example db_boda (Map.empty(1 \<mapsto> 1))"
proof -
  have "reach strptime_example db_cuentas Map.empty"
    by (rule reach_other_tables [OF reach_init, where us = "[alice, bruno, admin_root]"
          and ss = "[catering]"])
       (simp add: db_cuentas_def empty_db_def)
  from reach_nuevo_evento [OF this nuevo_evento_scenario] show ?thesis
    by (simp add: alice_def)
qed

text \<open>
  C9. An edit request and a cancel request, whoever sends them and whatever they carry,
  leave the pairs (event id, owner id) of the events table as they were; and in every
  database the application can reach, each event's owner is the account whose request
  created it.
\<close>

theorem owner_never_changes:
  "owners (snd (cliente_editar_evento strptime st current_user req eid)) = owners st
   \<and> owners (snd (cliente_cancelar_evento st current_user eid)) = owners st
   \<and> (reach strptime st creador
        \<longrightarrow> list_all (\<lambda>e. creador (id_evento e) = Some (usuario_id e)) (eventos st))"
proof -
  have "list_all (\<lambda>e. creador (id_evento e) = Some (usuario_id e)) (eventos st)"
    if "reach strptime st creador"
    using reach_owner_book [OF that]
    by (simp add: owner_book_def owners_def list_all_iff)
  then show ?thesis by (simp add: editar_evento_owners cancelar_evento_owners)
qed

theorem owner_never_changes_witness:
  "reach strptime_example db_boda (Map.empty(1 \<mapsto> 1))
   \<and> eventos db_boda = [boda]
   \<and> (Map.empty(1 \<mapsto> 1)) (id_evento boda) = Some (usuario_id boda)
   \<and> usuario_id boda = id_usuario alice"
  using owner_never_changes [of strptime_example db_boda _ _ _ "Map.empty(1 \<mapsto> 1)"] reach_db_boda
  by (simp add: db_boda_def boda_def alice_def)

end
